theory Spec2Isabelle
  imports Complex_Main "HOL-Library.Sublist"
begin

section \<open>JavaScript values as the handlers see them\<close>

text \<open>
  The handlers of this repository are JavaScript functions over parsed JSON: request
  bodies, query parameters and the bodies of the answers of the Wave GraphQL service
  and of the GitHub contents API. The values are modelled as a datatype. A string is
  the list of its UTF-16 code units, each a natural number; \<open>str\<close> gives the string
  of a literal of the code. A number is a finite rational (every finite double is one),
  NaN or an infinity.
\<close>

type_synonym jsstring = "nat list"

definition str :: "string \<Rightarrow> jsstring" where
  "str s = map of_char s"

datatype jsnum = Fin rat | NaN | PosInf | NegInf

datatype jsval =
    JUndefined
  | JNull
  | JBool bool
  | JNum jsnum
  | JStr jsstring
  | JArr "jsval list"
  | JObj "(jsstring \<times> jsval) list"

text \<open>
  A thrown \<^verbatim>\<open>Error\<close> object: its \<^verbatim>\<open>message\<close> and the side-channel property
  \<^verbatim>\<open>waveErrors\<close>, which is \<^const>\<open>JUndefined\<close> when the code never assigns it.
\<close>

datatype js_error = JsError (message: jsstring) (waveErrors: jsval)

text \<open>
  Text produced by the JavaScript runtime and not by the code of the repository is a
  parameter of the model: the decimal text of a number, \<^verbatim>\<open>JSON.stringify\<close>,
  \<^verbatim>\<open>String.prototype.toLowerCase\<close> (which follows the Unicode case mappings, is
  sensitive to context and may change the length of a text), and the messages of the
  \<^verbatim>\<open>TypeError\<close> raised when a property of \<^verbatim>\<open>null\<close> or \<^verbatim>\<open>undefined\<close> is
  read, when a value that is not a function is called, or when an object has no
  conversion to a primitive.
\<close>

record builtins =
  num_to_string :: "jsnum \<Rightarrow> jsstring"
  JSON_stringify :: "jsval \<Rightarrow> jsstring"
  toLowerCase :: "jsstring \<Rightarrow> jsstring"
  cannot_read :: "jsval \<Rightarrow> jsstring \<Rightarrow> jsstring"
  not_a_function :: "jsstring \<Rightarrow> jsstring"
  cannot_convert :: jsstring

text \<open>Truthiness, as \<^verbatim>\<open>!x\<close>, \<^verbatim>\<open>x || y\<close>, \<^verbatim>\<open>x && y\<close> and \<^verbatim>\<open>x ? y : z\<close> test it.\<close>

fun truthy :: "jsval \<Rightarrow> bool" where
  "truthy JUndefined = False"
| "truthy JNull = False"
| "truthy (JBool b) = b"
| "truthy (JNum n) = (n \<noteq> Fin 0 \<and> n \<noteq> NaN)"
| "truthy (JStr s) = (s \<noteq> [])"
| "truthy (JArr xs) = True"
| "truthy (JObj kvs) = True"

definition js_or :: "jsval \<Rightarrow> jsval \<Rightarrow> jsval" where
  "js_or a b = (if truthy a then a else b)"

text \<open>
  Reading a property with a fixed name \<^verbatim>\<open>v.k\<close>. None of the names the handlers read
  is a built-in member of a string, an array, a number, a boolean or of
  \<^verbatim>\<open>Object.prototype\<close>, so the value is the object's own property or
  \<^verbatim>\<open>undefined\<close>. \<^verbatim>\<open>read_prop\<close> is the read on a value that is neither \<^verbatim>\<open>null\<close> nor
  \<^verbatim>\<open>undefined\<close>; \<^verbatim>\<open>get_prop\<close> raises the runtime's \<^verbatim>\<open>TypeError\<close> on those two.
\<close>

fun read_prop :: "jsval \<Rightarrow> jsstring \<Rightarrow> jsval" where
  "read_prop (JObj kvs) k = (case map_of kvs k of Some v \<Rightarrow> v | None \<Rightarrow> JUndefined)"
| "read_prop v k = JUndefined"

definition type_error_read :: "builtins \<Rightarrow> jsval \<Rightarrow> jsstring \<Rightarrow> js_error" where
  "type_error_read B v k = JsError (cannot_read B v k) JUndefined"

fun get_prop :: "builtins \<Rightarrow> jsval \<Rightarrow> jsstring \<Rightarrow> js_error + jsval" where
  "get_prop B JUndefined k = Inl (type_error_read B JUndefined k)"
| "get_prop B JNull k = Inl (type_error_read B JNull k)"
| "get_prop B v k = Inr (read_prop v k)"

text \<open>
  \<^verbatim>\<open>String(v)\<close>, the conversion inside a template literal and the conversion of a
  computed property key. An array joins the texts of its elements with commas,
  \<^verbatim>\<open>null\<close> and \<^verbatim>\<open>undefined\<close> elements giving the empty text. A plain object gives
  \<^verbatim>\<open>[object Object]\<close> through the inherited \<^verbatim>\<open>toString\<close>; an own property of
  that name, which parsed JSON cannot make callable, leaves no way to a primitive and
  the runtime raises a \<^verbatim>\<open>TypeError\<close>.
\<close>

fun join_comma :: "jsstring list \<Rightarrow> jsstring" where
  "join_comma [] = []"
| "join_comma [s] = s"
| "join_comma (s # t # ss) = s @ str '','' @ join_comma (t # ss)"

fun ToString :: "builtins \<Rightarrow> jsval \<Rightarrow> js_error + jsstring"
  and ToString_elems :: "builtins \<Rightarrow> jsval list \<Rightarrow> js_error + jsstring list" where
  "ToString B JUndefined = Inr (str ''undefined'')"
| "ToString B JNull = Inr (str ''null'')"
| "ToString B (JBool b) = Inr (if b then str ''true'' else str ''false'')"
| "ToString B (JNum n) = Inr (num_to_string B n)"
| "ToString B (JStr s) = Inr s"
| "ToString B (JArr xs) =
     (case ToString_elems B xs of Inl e \<Rightarrow> Inl e | Inr ss \<Rightarrow> Inr (join_comma ss))"
| "ToString B (JObj kvs) =
     (if map_of kvs (str ''toString'') = None then Inr (str ''[object Object]'')
      else Inl (JsError (cannot_convert B) JUndefined))"
| "ToString_elems B [] = Inr []"
| "ToString_elems B (x # xs) =
     (case (if x = JUndefined \<or> x = JNull then Inr [] else ToString B x) of
        Inl e \<Rightarrow> Inl e
      | Inr s \<Rightarrow> (case ToString_elems B xs of Inl e \<Rightarrow> Inl e | Inr ss \<Rightarrow> Inr (s # ss)))"

text \<open>\<^verbatim>\<open>process.env\<close>: a variable is a string or is absent; \<^verbatim>\<open>process.env.X || ''\<close>.\<close>

type_synonym env = "jsstring \<Rightarrow> jsstring option"

definition env_or_empty :: "env \<Rightarrow> jsstring \<Rightarrow> jsstring" where
  "env_or_empty env k = (case env k of None \<Rightarrow> [] | Some s \<Rightarrow> s)"

section \<open>The Wave GraphQL call primitive of the invoice function\<close>

text \<open>
  What \<^verbatim>\<open>fetch\<close> and \<^verbatim>\<open>resp.json()\<close> deliver: the request is rejected (a network
  failure), or a response arrives with \<^verbatim>\<open>resp.ok\<close>, \<^verbatim>\<open>resp.statusText\<close> and a
  body that \<^verbatim>\<open>resp.json()\<close> either fails to parse or parses to a value.
\<close>

datatype fetch_outcome =
    NetworkError js_error
  | Response (resp_ok: bool) (statusText: jsstring) (resp_json: "js_error + jsval")

text \<open>
  The product reference of an invoice line: the text of an environment variable, or,
  when the package key names a member inherited from \<^verbatim>\<open>Object.prototype\<close>, that
  member.
\<close>

datatype product_ref = ProductId jsstring | InheritedMember jsstring

text \<open>
  One call to the service: the operation and the variables that depend on the request.
  Of the input of \<^verbatim>\<open>invoiceCreate\<close> the constant and clock-derived fields (status,
  quantity, dates) are not carried, and of the memo and the description, which are fixed
  text around the contract identifier and the name of the package, only the text of the
  contract identifier is.
\<close>

datatype wave_call =
    CustomerCreate (cc_businessId: jsstring) (cc_name: jsval) (cc_email: jsval)
  | InvoiceCreate (ic_businessId: jsstring) (ic_customerId: jsval) (ic_currency: jsstring)
      (ic_contract: jsstring) (ic_productId: product_ref) (ic_unitPrice: jsstring)
  | InvoiceApprove jsval
  | InvoiceSend jsval
  | AccountsQuery jsstring
  | ProductsQuery jsstring
  | BusinessesQuery

type_synonym world = "wave_call \<Rightarrow> fetch_outcome"

text \<open>
  The part of \<^verbatim>\<open>waveQuery\<close> (invoice function) after \<^verbatim>\<open>fetch\<close>. Both
  \<^verbatim>\<open>!resp.ok || body.errors\<close> and \<^verbatim>\<open>body.errors ? ... : ...\<close> read
  \<^verbatim>\<open>body.errors\<close>, so a body that is \<^verbatim>\<open>null\<close> raises whatever the status.
\<close>

definition wave_response :: "builtins \<Rightarrow> fetch_outcome \<Rightarrow> js_error + jsval" where
  "wave_response B out =
     (case out of
        NetworkError e \<Rightarrow> Inl e
      | Response ok stext parsed \<Rightarrow>
          (case parsed of
             Inl e \<Rightarrow> Inl e
           | Inr body \<Rightarrow>
               (case get_prop B body (str ''errors'') of
                  Inl e \<Rightarrow> Inl e
                | Inr errs \<Rightarrow>
                    if \<not> ok \<or> truthy errs then
                      Inl (JsError
                        (str ''Wave GraphQL error: '' @
                           (if truthy errs then JSON_stringify B errs else stext))
                        (js_or errs JNull))
                    else Inr (read_prop body (str ''data'')))))"

text \<open>
  \<^verbatim>\<open>waveQuery\<close>: without an API key it raises before any call; otherwise the call is
  issued (appended to the trace of calls) and the answer is judged.
\<close>

definition waveQuery ::
  "builtins \<Rightarrow> env \<Rightarrow> world \<Rightarrow> wave_call \<Rightarrow> wave_call list \<Rightarrow> (js_error + jsval) \<times> wave_call list" where
  "waveQuery B env w c tr =
     (if env_or_empty env (str ''WAVE_API_KEY'') = [] then
        (Inl (JsError (str ''Missing WAVE_API_KEY'') JUndefined), tr)
      else (wave_response B (w c), tr @ [c]))"

section \<open>The invoice function\<close>

subsection \<open>Package catalog and deposit\<close>

record package =
  pkg_name :: jsstring
  pkg_price :: rat

definition PACKAGE_CATALOG :: "(jsstring \<times> package) list" where
  "PACKAGE_CATALOG =
     [(str ''core'', \<lparr>pkg_name = str ''Core System Package'', pkg_price = 5000\<rparr>),
      (str ''growth'', \<lparr>pkg_name = str ''Growth Accelerator Package'', pkg_price = 7500\<rparr>),
      (str ''full'', \<lparr>pkg_name = str ''Full Ecosystem Package'', pkg_price = 10000\<rparr>)]"

text \<open>
  \<^verbatim>\<open>obj[key]\<close> on an object literal finds an own property, or a member that every
  object literal inherits from \<^verbatim>\<open>Object.prototype\<close> (all of them functions or
  objects, hence truthy, and without a \<^verbatim>\<open>price\<close>), or nothing.
\<close>

definition object_prototype_members :: "jsstring list" where
  "object_prototype_members =
     [str ''constructor'', str ''__defineGetter__'', str ''__defineSetter__'', str ''hasOwnProperty'',
      str ''__lookupGetter__'', str ''__lookupSetter__'', str ''isPrototypeOf'',
      str ''propertyIsEnumerable'', str ''toString'', str ''valueOf'', str ''__proto__'',
      str ''toLocaleString'']"

datatype 'a member = Own 'a | Inherited jsstring | Missing

definition literal_lookup :: "(jsstring \<times> 'a) list \<Rightarrow> jsstring \<Rightarrow> 'a member" where
  "literal_lookup obj k =
     (case map_of obj k of
        Some v \<Rightarrow> Own v
      | None \<Rightarrow> if k \<in> set object_prototype_members then Inherited k else Missing)"

text \<open>
  \<^verbatim>\<open>Math.round(x)\<close> is the integer nearest to \<open>x\<close>, a half going up. The deposit
  \<^verbatim>\<open>Math.round(pkg.price * 0.5 * 100) / 100\<close> is computed in doubles; on the catalog
  prices every intermediate value is an integer below \<open>2\<^sup>5\<^sup>3\<close>, so the doubles
  are exact and rational arithmetic gives the same numbers. A missing price is
  \<^verbatim>\<open>undefined\<close>, and the arithmetic on it gives NaN.
\<close>

definition Math_round :: "rat \<Rightarrow> int" where
  "Math_round x = \<lfloor>x + 1 / 2\<rfloor>"

definition deposit_of_price :: "rat \<Rightarrow> rat" where
  "deposit_of_price p = of_int (Math_round (p * (1 / 2) * 100)) / 100"

definition deposit :: "package member \<Rightarrow> jsnum" where
  "deposit pkg = (case pkg of Own p \<Rightarrow> Fin (deposit_of_price (pkg_price p)) | _ \<Rightarrow> NaN)"

subsection \<open>The four mutations\<close>

text \<open>
  The test \<^verbatim>\<open>!res || !res.didSucceed || !res.X\<close> and the text
  \<^verbatim>\<open>firstErr ? firstErr.message : 'Unknown error'\<close> with
  \<^verbatim>\<open>firstErr = res && res.inputErrors && res.inputErrors[0]\<close>, which the four
  functions share word for word.
\<close>

definition mutation_failed :: "jsval \<Rightarrow> jsstring \<Rightarrow> bool" where
  "mutation_failed res k =
     (\<not> truthy res \<or> \<not> truthy (read_prop res (str ''didSucceed'')) \<or> \<not> truthy (read_prop res k))"

fun index0 :: "jsval \<Rightarrow> jsval" where
  "index0 (JArr xs) = (case xs of [] \<Rightarrow> JUndefined | x # _ \<Rightarrow> x)"
| "index0 (JStr s) = (case s of [] \<Rightarrow> JUndefined | c # _ \<Rightarrow> JStr [c])"
| "index0 (JObj kvs) = read_prop (JObj kvs) (str ''0'')"
| "index0 v = JUndefined"

definition firstErr :: "jsval \<Rightarrow> jsval" where
  "firstErr res =
     (if \<not> truthy res then res
      else if \<not> truthy (read_prop res (str ''inputErrors'')) then read_prop res (str ''inputErrors'')
      else index0 (read_prop res (str ''inputErrors'')))"

definition failure_error :: "builtins \<Rightarrow> jsstring \<Rightarrow> jsval \<Rightarrow> js_error" where
  "failure_error B pre res =
     (if truthy (firstErr res) then
        (case ToString B (read_prop (firstErr res) (str ''message'')) of
           Inl e \<Rightarrow> e
         | Inr m \<Rightarrow> JsError (pre @ m) JUndefined)
      else JsError (pre @ str ''Unknown error'') JUndefined)"

text \<open>
  The shape the four functions share: issue the call, read the field of the operation
  from the data, and raise when the operation reports failure or its entity is absent.
\<close>

definition mutation ::
  "builtins \<Rightarrow> env \<Rightarrow> world \<Rightarrow> wave_call \<Rightarrow> jsstring \<Rightarrow> jsstring \<Rightarrow> jsstring \<Rightarrow> wave_call list
     \<Rightarrow> (js_error + jsval) \<times> wave_call list" where
  "mutation B env w c field entity pre tr =
     (case waveQuery B env w c tr of
        (Inl e, tr') \<Rightarrow> (Inl e, tr')
      | (Inr data, tr') \<Rightarrow>
          (case get_prop B data field of
             Inl e \<Rightarrow> (Inl e, tr')
           | Inr res \<Rightarrow>
               if mutation_failed res entity then (Inl (failure_error B pre res), tr')
               else (Inr (read_prop res entity), tr')))"

definition createCustomer ::
  "builtins \<Rightarrow> env \<Rightarrow> world \<Rightarrow> jsstring \<Rightarrow> jsval \<Rightarrow> jsval \<Rightarrow> wave_call list
     \<Rightarrow> (js_error + jsval) \<times> wave_call list" where
  "createCustomer B env w businessId clientName clientEmail tr =
     (case mutation B env w (CustomerCreate businessId clientName clientEmail)
             (str ''customerCreate'') (str ''customer'') (str ''Create customer failed: '') tr of
        (Inl e, tr') \<Rightarrow> (Inl e, tr')
      | (Inr customer, tr') \<Rightarrow> (Inr (read_prop customer (str ''id'')), tr'))"

definition productIdMap :: "env \<Rightarrow> (jsstring \<times> jsstring) list" where
  "productIdMap env =
     [(str ''core'', env_or_empty env (str ''WAVE_PRODUCT_ID_CORE'')),
      (str ''growth'', env_or_empty env (str ''WAVE_PRODUCT_ID_GROWTH'')),
      (str ''full'', env_or_empty env (str ''WAVE_PRODUCT_ID_FULL''))]"

definition resolve_productId :: "env \<Rightarrow> jsstring \<Rightarrow> product_ref" where
  "resolve_productId env key =
     (case literal_lookup (productIdMap env) key of
        Inherited k \<Rightarrow> InheritedMember k
      | Own v \<Rightarrow> if v \<noteq> [] then ProductId v else ProductId (env_or_empty env (str ''WAVE_PRODUCT_ID''))
      | Missing \<Rightarrow> ProductId (env_or_empty env (str ''WAVE_PRODUCT_ID'')))"

definition missing_product_error :: js_error where
  "missing_product_error =
     JsError (str ''Missing WAVE_PRODUCT_ID'')
       (JArr [JObj [(str ''message'', JStr (str ''Set WAVE_PRODUCT_ID_<PACKAGE> (CORE/GROWTH/FULL) or '' @
          str ''WAVE_PRODUCT_ID to a valid Product ID in your Wave business.''))]])"

text \<open>
  \<^verbatim>\<open>createInvoice\<close> returns the pair \<^verbatim>\<open>{invoiceId, viewUrl}\<close>. The package
  key is converted to a property key for the lookup in the catalog; the contract
  identifier is converted to text inside the memo, when the variables are built, after
  the product has been resolved. Either conversion may raise.
\<close>

definition createInvoice ::
  "builtins \<Rightarrow> env \<Rightarrow> world \<Rightarrow> jsstring \<Rightarrow> jsval \<Rightarrow> jsstring \<Rightarrow> jsval \<Rightarrow> jsval \<Rightarrow> wave_call list
     \<Rightarrow> (js_error + jsval \<times> jsval) \<times> wave_call list" where
  "createInvoice B env w businessId customerId currency packageKey contractId tr =
     (case ToString B packageKey of
        Inl e \<Rightarrow> (Inl e, tr)
      | Inr key \<Rightarrow>
          (case literal_lookup PACKAGE_CATALOG key of
             Missing \<Rightarrow> (Inl (JsError (str ''Unknown package key'') JUndefined), tr)
           | pkg \<Rightarrow>
               if resolve_productId env key = ProductId [] then (Inl missing_product_error, tr)
               else
                 (case ToString B contractId of
                    Inl e \<Rightarrow> (Inl e, tr)
                  | Inr contract \<Rightarrow>
                      (case mutation B env w
                              (InvoiceCreate businessId customerId currency contract
                                 (resolve_productId env key) (num_to_string B (deposit pkg)))
                              (str ''invoiceCreate'') (str ''invoice'') (str ''Create invoice failed: '') tr of
                         (Inl e, tr') \<Rightarrow> (Inl e, tr')
                       | (Inr invoice, tr') \<Rightarrow>
                           (Inr (read_prop invoice (str ''id''),
                                 js_or (read_prop invoice (str ''viewUrl'')) JNull),
                            tr')))))"

definition sendInvoice ::
  "builtins \<Rightarrow> env \<Rightarrow> world \<Rightarrow> jsval \<Rightarrow> wave_call list \<Rightarrow> (js_error + jsval) \<times> wave_call list" where
  "sendInvoice B env w invoiceId tr =
     (case mutation B env w (InvoiceSend invoiceId)
             (str ''invoiceSend'') (str ''invoice'') (str ''Send invoice failed: '') tr of
        (Inl e, tr') \<Rightarrow> (Inl e, tr')
      | (Inr invoice, tr') \<Rightarrow> (Inr (js_or (read_prop invoice (str ''viewUrl'')) JNull), tr'))"

definition approveInvoice ::
  "builtins \<Rightarrow> env \<Rightarrow> world \<Rightarrow> jsval \<Rightarrow> wave_call list \<Rightarrow> (js_error + jsval) \<times> wave_call list" where
  "approveInvoice B env w invoiceId tr =
     (case mutation B env w (InvoiceApprove invoiceId)
             (str ''invoiceApprove'') (str ''invoice'') (str ''Approve invoice failed: '') tr of
        (Inl e, tr') \<Rightarrow> (Inl e, tr')
      | (Inr invoice, tr') \<Rightarrow> (Inr (read_prop invoice (str ''status'')), tr'))"

subsection \<open>The handler\<close>

record request =
  req_method :: jsstring
  req_body :: jsval
  req_query :: jsval

text \<open>What \<^verbatim>\<open>json(res, status, data)\<close> sends: the status and the data.\<close>

record response =
  statusCode :: nat
  payload :: jsval

definition json :: "nat \<Rightarrow> jsval \<Rightarrow> response" where
  "json status data = \<lparr>statusCode = status, payload = data\<rparr>"

text \<open>\<^verbatim>\<open>const { contractData, invoice } = req.body || {}\<close>\<close>

definition contractData :: "request \<Rightarrow> jsval" where
  "contractData req = read_prop (js_or (req_body req) (JObj [])) (str ''contractData'')"

definition invoice :: "request \<Rightarrow> jsval" where
  "invoice req = read_prop (js_or (req_body req) (JObj [])) (str ''invoice'')"

text \<open>\<^verbatim>\<open>!contractData || !invoice || !invoice.packageKey\<close>\<close>

definition missing_fields :: "request \<Rightarrow> bool" where
  "missing_fields req =
     (\<not> truthy (contractData req) \<or> \<not> truthy (invoice req)
      \<or> \<not> truthy (read_prop (invoice req) (str ''packageKey'')))"

text \<open>\<^verbatim>\<open>!apiKey || !businessId\<close>, negated.\<close>

definition configured :: "env \<Rightarrow> bool" where
  "configured env =
     (env_or_empty env (str ''WAVE_API_KEY'') \<noteq> [] \<and> env_or_empty env (str ''WAVE_BUSINESS_ID'') \<noteq> [])"

definition currency :: "env \<Rightarrow> jsstring" where
  "currency env =
     (if env_or_empty env (str ''WAVE_CURRENCY'') \<noteq> [] then env_or_empty env (str ''WAVE_CURRENCY'')
      else str ''USD'')"

text \<open>
  The two calls of the handler that may abort it, with the arguments the handler gives
  them. The trace of calls starts empty with the request.
\<close>

definition customer_step ::
  "builtins \<Rightarrow> env \<Rightarrow> world \<Rightarrow> request \<Rightarrow> (js_error + jsval) \<times> wave_call list" where
  "customer_step B env w req =
     createCustomer B env w (env_or_empty env (str ''WAVE_BUSINESS_ID''))
       (read_prop (contractData req) (str ''clientName''))
       (read_prop (contractData req) (str ''clientEmail'')) []"

definition invoice_step ::
  "builtins \<Rightarrow> env \<Rightarrow> world \<Rightarrow> request \<Rightarrow> jsval \<Rightarrow> wave_call list
     \<Rightarrow> (js_error + jsval \<times> jsval) \<times> wave_call list" where
  "invoice_step B env w req customerId tr =
     createInvoice B env w (env_or_empty env (str ''WAVE_BUSINESS_ID'')) customerId (currency env)
       (read_prop (invoice req) (str ''packageKey'')) (read_prop (contractData req) (str ''contractId'')) tr"

text \<open>
  Approve, then send, each inside its own \<^verbatim>\<open>try\<close> with an empty \<^verbatim>\<open>catch\<close>; the
  result is the payment URL.
\<close>

definition approve_and_send ::
  "builtins \<Rightarrow> env \<Rightarrow> world \<Rightarrow> jsval \<Rightarrow> jsval \<Rightarrow> wave_call list \<Rightarrow> jsval \<times> wave_call list" where
  "approve_and_send B env w invoiceId viewUrl tr =
     (case approveInvoice B env w invoiceId tr of
        (approved, tr1) \<Rightarrow>
          (case sendInvoice B env w invoiceId tr1 of
             (Inl e, tr2) \<Rightarrow> (js_or viewUrl JNull, tr2)
           | (Inr sentUrl, tr2) \<Rightarrow>
               (if truthy sentUrl then sentUrl else js_or viewUrl JNull, tr2)))"

text \<open>The body of the outer \<^verbatim>\<open>try\<close> from the first call on, up to the values of the live answer.\<close>

definition invoice_steps ::
  "builtins \<Rightarrow> env \<Rightarrow> world \<Rightarrow> request \<Rightarrow> (js_error + jsval \<times> jsval) \<times> wave_call list" where
  "invoice_steps B env w req =
     (case customer_step B env w req of
        (Inl e, tr) \<Rightarrow> (Inl e, tr)
      | (Inr customerId, tr) \<Rightarrow>
          (case invoice_step B env w req customerId tr of
             (Inl e, tr') \<Rightarrow> (Inl e, tr')
           | (Inr (invoiceId, viewUrl), tr') \<Rightarrow>
               (case approve_and_send B env w invoiceId viewUrl tr' of
                  (paymentUrl, tr'') \<Rightarrow> (Inr (invoiceId, js_or paymentUrl JNull), tr''))))"

definition demo_response :: response where
  "demo_response =
     json 200 (JObj [(str ''mode'', JStr (str ''demo'')),
       (str ''paymentUrl'', JStr (str ''https://link.waveapps.com/payment-demo'')),
       (str ''note'', JStr (str ''WaveApps environment variables not set. Returning demo link.''))])"

definition fallback_response :: "js_error \<Rightarrow> response" where
  "fallback_response e =
     json 200 (JObj [(str ''mode'', JStr (str ''fallback'')),
       (str ''paymentUrl'', JStr (str ''https://link.waveapps.com/payment-demo'')),
       (str ''error'', JStr (if message e \<noteq> [] then message e else str ''Unknown error'')),
       (str ''errorDetails'', js_or (waveErrors e) JNull)])"

definition live_response :: "jsval \<Rightarrow> jsval \<Rightarrow> response" where
  "live_response invoiceId paymentUrl =
     json 200 (JObj [(str ''mode'', JStr (str ''live'')), (str ''invoiceId'', invoiceId),
       (str ''paymentUrl'', paymentUrl)])"

text \<open>The exported handler: the answer and the calls issued to the service, in order.\<close>

definition invoice_handler ::
  "builtins \<Rightarrow> env \<Rightarrow> world \<Rightarrow> request \<Rightarrow> response \<times> wave_call list" where
  "invoice_handler B env w req =
     (if req_method req \<noteq> str ''POST'' then
        (json 405 (JObj [(str ''error'', JStr (str ''Method not allowed''))]), [])
      else if missing_fields req then
        (json 400 (JObj [(str ''error'', JStr (str ''Missing contractData or invoice.packageKey''))]), [])
      else if \<not> configured env then (demo_response, [])
      else
        (case invoice_steps B env w req of
           (Inl e, tr) \<Rightarrow> (fallback_response e, tr)
         | (Inr (invoiceId, paymentUrl), tr) \<Rightarrow> (live_response invoiceId paymentUrl, tr)))"

section \<open>The listing functions and business discovery\<close>

text \<open>
  Each of these files has its own copy of \<^verbatim>\<open>waveQuery\<close>, which attaches nothing to
  the error it raises.
\<close>

definition wave_response_plain :: "builtins \<Rightarrow> fetch_outcome \<Rightarrow> js_error + jsval" where
  "wave_response_plain B out =
     (case out of
        NetworkError e \<Rightarrow> Inl e
      | Response ok stext parsed \<Rightarrow>
          (case parsed of
             Inl e \<Rightarrow> Inl e
           | Inr body \<Rightarrow>
               (case get_prop B body (str ''errors'') of
                  Inl e \<Rightarrow> Inl e
                | Inr errs \<Rightarrow>
                    if \<not> ok \<or> truthy errs then
                      Inl (JsError
                        (str ''Wave GraphQL error: '' @
                           (if truthy errs then JSON_stringify B errs else stext))
                        JUndefined)
                    else Inr (read_prop body (str ''data'')))))"

definition waveQuery_plain ::
  "builtins \<Rightarrow> env \<Rightarrow> world \<Rightarrow> wave_call \<Rightarrow> wave_call list \<Rightarrow> (js_error + jsval) \<times> wave_call list" where
  "waveQuery_plain B env w c tr =
     (if env_or_empty env (str ''WAVE_API_KEY'') = [] then
        (Inl (JsError (str ''Missing WAVE_API_KEY'') JUndefined), tr)
      else (wave_response_plain B (w c), tr @ [c]))"

text \<open>
  \<^verbatim>\<open>(data.business && data.business.X && data.business.X.edges) || []\<close>, after
  \<^verbatim>\<open>data.business\<close> has been read.
\<close>

definition edges_of :: "jsval \<Rightarrow> jsstring \<Rightarrow> jsval" where
  "edges_of business coll =
     js_or (if \<not> truthy business then business
            else if \<not> truthy (read_prop business coll) then read_prop business coll
            else read_prop (read_prop business coll) (str ''edges''))
       (JArr [])"

text \<open>\<^verbatim>\<open>xs.map(e => e.node)\<close> on the elements of an array, left to right.\<close>

fun map_node :: "builtins \<Rightarrow> jsval list \<Rightarrow> js_error + jsval list" where
  "map_node B [] = Inr []"
| "map_node B (e # es) =
     (case get_prop B e (str ''node'') of
        Inl err \<Rightarrow> Inl err
      | Inr n \<Rightarrow> (case map_node B es of Inl err \<Rightarrow> Inl err | Inr ns \<Rightarrow> Inr (n # ns)))"

text \<open>The \<^verbatim>\<open>catch\<close> of the two listing handlers.\<close>

definition error_response :: "js_error \<Rightarrow> response" where
  "error_response e =
     json 200 (JObj [(str ''error'', JStr (if message e \<noteq> [] then message e else str ''Unknown error''))])"

subsection \<open>List accounts\<close>

text \<open>
  The answer is built in the order of the object literal: \<^verbatim>\<open>data.business.id\<close> and
  \<^verbatim>\<open>name\<close>, \<^verbatim>\<open>accounts.length\<close>, then \<^verbatim>\<open>accounts.map\<close>, which only an
  array has.
\<close>

definition accounts_body :: "builtins \<Rightarrow> jsval \<Rightarrow> js_error + jsval" where
  "accounts_body B data =
     (case get_prop B data (str ''business'') of
        Inl e \<Rightarrow> Inl e
      | Inr business \<Rightarrow>
          (case get_prop B business (str ''id'') of
             Inl e \<Rightarrow> Inl e
           | Inr bid \<Rightarrow>
               (case edges_of business (str ''accounts'') of
                  JArr es \<Rightarrow>
                    (case map_node B es of
                       Inl e \<Rightarrow> Inl e
                     | Inr nodes \<Rightarrow>
                         Inr (JObj [(str ''business'',
                                 JObj [(str ''id'', bid), (str ''name'', read_prop business (str ''name''))]),
                               (str ''count'', JNum (Fin (of_nat (length es)))),
                               (str ''accounts'', JArr nodes)]))
                | other \<Rightarrow> Inl (JsError (not_a_function B (str ''accounts.map'')) JUndefined))))"

definition list_accounts ::
  "builtins \<Rightarrow> env \<Rightarrow> world \<Rightarrow> request \<Rightarrow> response \<times> wave_call list" where
  "list_accounts B env w req =
     (if env_or_empty env (str ''WAVE_BUSINESS_ID'') = [] then
        (json 200 (JObj [(str ''error'', JStr (str ''Missing WAVE_BUSINESS_ID''))]), [])
      else
        (case waveQuery_plain B env w (AccountsQuery (env_or_empty env (str ''WAVE_BUSINESS_ID''))) [] of
           (Inl e, tr) \<Rightarrow> (error_response e, tr)
         | (Inr data, tr) \<Rightarrow>
             (case accounts_body B data of
                Inl e \<Rightarrow> (error_response e, tr)
              | Inr body \<Rightarrow> (json 200 body, tr))))"

subsection \<open>List products\<close>

text \<open>\<^verbatim>\<open>(req.query && req.query.q) ? String(req.query.q).toLowerCase() : ''\<close>\<close>

definition query_q :: "builtins \<Rightarrow> request \<Rightarrow> js_error + jsstring" where
  "query_q B req =
     (if truthy (req_query req) \<and> truthy (read_prop (req_query req) (str ''q'')) then
        (case ToString B (read_prop (req_query req) (str ''q'')) of
           Inl e \<Rightarrow> Inl e
         | Inr s \<Rightarrow> Inr (toLowerCase B s))
      else Inr [])"

text \<open>
  \<^verbatim>\<open>all.filter(p => (p.name || '').toLowerCase().includes(q))\<close>: reading the name of
  \<^verbatim>\<open>null\<close> raises, and so does a truthy name that is not a string, which has no
  \<^verbatim>\<open>toLowerCase\<close>.
\<close>

definition name_matches :: "builtins \<Rightarrow> jsstring \<Rightarrow> jsval \<Rightarrow> js_error + bool" where
  "name_matches B q p =
     (case get_prop B p (str ''name'') of
        Inl e \<Rightarrow> Inl e
      | Inr n \<Rightarrow>
          (case js_or n (JStr []) of
             JStr s \<Rightarrow> Inr (sublist q (toLowerCase B s))
           | other \<Rightarrow> Inl (JsError (not_a_function B (str ''toLowerCase'')) JUndefined)))"

fun filter_products :: "builtins \<Rightarrow> jsstring \<Rightarrow> jsval list \<Rightarrow> js_error + jsval list" where
  "filter_products B q [] = Inr []"
| "filter_products B q (p # ps) =
     (case name_matches B q p of
        Inl e \<Rightarrow> Inl e
      | Inr keep \<Rightarrow>
          (case filter_products B q ps of
             Inl e \<Rightarrow> Inl e
           | Inr rest \<Rightarrow> Inr (if keep then p # rest else rest)))"

text \<open>
  Here the nodes are mapped and filtered first, and \<^verbatim>\<open>data.business.id\<close> is read last,
  inside the object literal of the answer.
\<close>

definition products_body :: "builtins \<Rightarrow> request \<Rightarrow> jsval \<Rightarrow> js_error + jsval" where
  "products_body B req data =
     (case get_prop B data (str ''business'') of
        Inl e \<Rightarrow> Inl e
      | Inr business \<Rightarrow>
          (case edges_of business (str ''products'') of
             JArr es \<Rightarrow>
               (case map_node B es of
                  Inl e \<Rightarrow> Inl e
                | Inr all \<Rightarrow>
                    (case query_q B req of
                       Inl e \<Rightarrow> Inl e
                     | Inr q \<Rightarrow>
                         (case (if q \<noteq> [] then filter_products B q all else Inr all) of
                            Inl e \<Rightarrow> Inl e
                          | Inr filtered \<Rightarrow>
                              (case get_prop B business (str ''id'') of
                                 Inl e \<Rightarrow> Inl e
                               | Inr bid \<Rightarrow>
                                   Inr (JObj [(str ''business'',
                                          JObj [(str ''id'', bid),
                                                (str ''name'', read_prop business (str ''name''))]),
                                        (str ''count'', JNum (Fin (of_nat (length filtered)))),
                                        (str ''products'', JArr filtered)])))))
           | other \<Rightarrow> Inl (JsError (not_a_function B (str ''edges.map'')) JUndefined)))"

definition list_products ::
  "builtins \<Rightarrow> env \<Rightarrow> world \<Rightarrow> request \<Rightarrow> response \<times> wave_call list" where
  "list_products B env w req =
     (if env_or_empty env (str ''WAVE_BUSINESS_ID'') = [] then
        (json 200 (JObj [(str ''error'', JStr (str ''Missing WAVE_BUSINESS_ID''))]), [])
      else
        (case waveQuery_plain B env w (ProductsQuery (env_or_empty env (str ''WAVE_BUSINESS_ID''))) [] of
           (Inl e, tr) \<Rightarrow> (error_response e, tr)
         | (Inr data, tr) \<Rightarrow>
             (case products_body B req data of
                Inl e \<Rightarrow> (error_response e, tr)
              | Inr body \<Rightarrow> (json 200 body, tr))))"

subsection \<open>Business discovery\<close>

text \<open>
  \<^verbatim>\<open>data.businesses.edges.map(edge => edge.node)\<close>, with no guard on any of the three
  reads.
\<close>

definition getBusinesses ::
  "builtins \<Rightarrow> env \<Rightarrow> world \<Rightarrow> (js_error + jsval list) \<times> wave_call list" where
  "getBusinesses B env w =
     (case waveQuery_plain B env w BusinessesQuery [] of
        (Inl e, tr) \<Rightarrow> (Inl e, tr)
      | (Inr data, tr) \<Rightarrow>
          (case get_prop B data (str ''businesses'') of
             Inl e \<Rightarrow> (Inl e, tr)
           | Inr bs \<Rightarrow>
               (case get_prop B bs (str ''edges'') of
                  Inl e \<Rightarrow> (Inl e, tr)
                | Inr edges \<Rightarrow>
                    (case edges of
                       JArr es \<Rightarrow> (map_node B es, tr)
                     | JUndefined \<Rightarrow> (Inl (type_error_read B JUndefined (str ''map'')), tr)
                     | JNull \<Rightarrow> (Inl (type_error_read B JNull (str ''map'')), tr)
                     | other \<Rightarrow>
                         (Inl (JsError (not_a_function B (str ''data.businesses.edges.map'')) JUndefined),
                          tr)))))"

definition business_discovery ::
  "builtins \<Rightarrow> env \<Rightarrow> world \<Rightarrow> request \<Rightarrow> response \<times> wave_call list" where
  "business_discovery B env w req =
     (case getBusinesses B env w of
        (Inl e, tr) \<Rightarrow> (json 500 (JObj [(str ''error'', JStr (message e))]), tr)
      | (Inr businesses, tr) \<Rightarrow> (json 200 (JObj [(str ''businesses'', JArr businesses)]), tr))"

section \<open>The contract upload function\<close>

text \<open>The one call to the GitHub contents API: a PUT of a file at a path of a repository.\<close>

datatype github_call =
  PutFile (gh_repo: jsstring) (gh_path: jsstring) (gh_content: jsval) (gh_message: jsstring)
    (gh_branch: jsstring)

type_synonym github_world = "github_call \<Rightarrow> fetch_outcome"

text \<open>
  \<^verbatim>\<open>putFileToGitHub\<close> returns the pair \<^verbatim>\<open>{sha, downloadUrl}\<close>.
  \<^verbatim>\<open>new Error(x)\<close> takes the text of \<open>x\<close> as its message.
\<close>

definition putFileToGitHub ::
  "builtins \<Rightarrow> env \<Rightarrow> github_world \<Rightarrow> jsstring \<Rightarrow> jsval \<Rightarrow> jsstring
     \<Rightarrow> (js_error + jsval \<times> jsval) \<times> github_call list" where
  "putFileToGitHub B env gw path base64Content msg =
     (if env_or_empty env (str ''GITHUB_TOKEN'') = [] \<or> env_or_empty env (str ''GITHUB_REPO'') = [] then
        (Inl (JsError (str ''Missing GITHUB_TOKEN or GITHUB_REPO'') JUndefined), [])
      else
        (let repo = env_or_empty env (str ''GITHUB_REPO'');
             branch = (if env_or_empty env (str ''GITHUB_BRANCH'') \<noteq> []
                       then env_or_empty env (str ''GITHUB_BRANCH'') else str ''main'');
             c = PutFile repo path base64Content (if msg \<noteq> [] then msg else str ''Add '' @ path)
                   branch
         in
           ((case gw c of
              NetworkError e \<Rightarrow> Inl e
            | Response ok stext parsed \<Rightarrow>
                (case parsed of
                   Inl e \<Rightarrow> Inl e
                 | Inr data \<Rightarrow>
                     if \<not> ok then
                       (if truthy data \<and> truthy (read_prop data (str ''message'')) then
                          (case ToString B (read_prop data (str ''message'')) of
                             Inl e \<Rightarrow> Inl e
                           | Inr m \<Rightarrow> Inl (JsError m JUndefined))
                        else Inl (JsError (str ''GitHub upload failed'') JUndefined))
                     else
                       (case get_prop B data (str ''content'') of
                          Inl e \<Rightarrow> Inl e
                        | Inr content \<Rightarrow>
                            Inr (if truthy content then read_prop content (str ''sha'') else content,
                                 if truthy content \<and> truthy (read_prop content (str ''download_url''))
                                 then read_prop content (str ''download_url'')
                                 else JStr (str ''https://raw.githubusercontent.com/'' @ repo @ str ''/''
                                              @ branch @ str ''/'' @ path))))),
            [c])))"

text \<open>
  \<^verbatim>\<open>filename.replace(/[^a-zA-Z0-9._-]/g, '_')\<close>: the pattern has no \<^verbatim>\<open>u\<close> flag,
  so it works code unit by code unit. The ranges of the class are the code units 97 to
  122, 65 to 90 and 48 to 57; dot, underscore and hyphen are 46, 95 and 45.
\<close>

definition allowed_char :: "nat \<Rightarrow> bool" where
  "allowed_char u =
     ((97 \<le> u \<and> u \<le> 122) \<or> (65 \<le> u \<and> u \<le> 90) \<or> (48 \<le> u \<and> u \<le> 57)
      \<or> u = 46 \<or> u = 95 \<or> u = 45)"

definition sanitize :: "jsstring \<Rightarrow> jsstring" where
  "sanitize filename = map (\<lambda>u. if allowed_char u then u else 95) filename"

text \<open>
  \<^verbatim>\<open>String.prototype.trim\<close> removes white space and line terminators at both ends:
  tab, line feed, vertical tab, form feed, carriage return, space, the no-break space,
  the Ogham space mark, the spaces U+2000 to U+200A, the line and paragraph separators,
  the narrow no-break space, the medium mathematical space, the ideographic space and
  the byte order mark.
\<close>

definition js_space :: "nat \<Rightarrow> bool" where
  "js_space u =
     (u \<in> {9, 10, 11, 12, 13, 32, 160, 5760, 8232, 8233, 8239, 8287, 12288, 65279}
      \<or> (8192 \<le> u \<and> u \<le> 8202))"

definition js_trim :: "jsstring \<Rightarrow> jsstring" where
  "js_trim s = rev (dropWhile js_space (rev (dropWhile js_space s)))"

text \<open>
  The commit message
  \<^verbatim>\<open>`chore(contracts): add signed contract ${c && c.contractId ? c.contractId : ''}`.trim()\<close>
\<close>

definition commit_message :: "builtins \<Rightarrow> jsval \<Rightarrow> js_error + jsstring" where
  "commit_message B cd =
     (case (if truthy cd \<and> truthy (read_prop cd (str ''contractId''))
            then ToString B (read_prop cd (str ''contractId'')) else Inr []) of
        Inl e \<Rightarrow> Inl e
      | Inr t \<Rightarrow> Inr (js_trim (str ''chore(contracts): add signed contract '' @ t)))"

definition upload_error :: "js_error \<Rightarrow> response" where
  "upload_error e =
     json 500 (JObj [(str ''error'', JStr (if message e \<noteq> [] then message e else str ''Upload failed''))])"

text \<open>
  The exported handler. A truthy \<^verbatim>\<open>filename\<close> that is not a string has no
  \<^verbatim>\<open>replace\<close>, and the call raises.
\<close>

definition upload_contract ::
  "builtins \<Rightarrow> env \<Rightarrow> github_world \<Rightarrow> request \<Rightarrow> response \<times> github_call list" where
  "upload_contract B env gw req =
     (if req_method req \<noteq> str ''POST'' then
        (json 405 (JObj [(str ''error'', JStr (str ''Method not allowed''))]), [])
      else
        (let b = js_or (req_body req) (JObj []);
             filename = read_prop b (str ''filename'');
             content = read_prop b (str ''content'')
         in
           if \<not> truthy filename \<or> \<not> truthy content then
             (json 400 (JObj [(str ''error'', JStr (str ''Missing filename or content''))]), [])
           else
             (case filename of
                JStr name \<Rightarrow>
                  (case commit_message B (read_prop b (str ''contractData'')) of
                     Inl e \<Rightarrow> (upload_error e, [])
                   | Inr msg \<Rightarrow>
                       (case putFileToGitHub B env gw (str ''contracts/'' @ sanitize name) content msg of
                          (Inl e, tr) \<Rightarrow> (upload_error e, tr)
                        | (Inr (sha, downloadUrl), tr) \<Rightarrow>
                            (json 200 (JObj [(str ''downloadUrl'', downloadUrl), (str ''sha'', sha)]), tr)))
              | other \<Rightarrow>
                  (upload_error (JsError (not_a_function B (str ''filename.replace'')) JUndefined), []))))"

section \<open>Observations and example runs\<close>

text \<open>
  The error with which the handler's workflow aborts, if it does: the one raised by
  customer creation, or else the one raised by invoice creation. The approve and send
  steps cannot abort it.
\<close>

definition fatal_error :: "builtins \<Rightarrow> env \<Rightarrow> world \<Rightarrow> request \<Rightarrow> js_error option" where
  "fatal_error B env w req =
     (case customer_step B env w req of
        (Inl e, tr) \<Rightarrow> Some e
      | (Inr customerId, tr) \<Rightarrow>
          (case invoice_step B env w req customerId tr of
             (Inl e, tr') \<Rightarrow> Some e
           | (Inr r, tr') \<Rightarrow> None))"

definition mode :: "response \<Rightarrow> jsval" where
  "mode r = read_prop (payload r) (str ''mode'')"

text \<open>
  A runtime, environments, requests and services for running the handlers on concrete
  inputs. The runtime prints a natural number in decimal, the digits being the code
  units from 48 on. Its letters are A to Z, a to z, the Latin-1 letters (192 to 255
  without the signs 215 and 247) and the Greek letters from capital alpha to small omega
  (913 to 969 without 930). It lowercases the capitals among them unit by unit by adding
  32, except that a capital sigma (931) after a letter and not before one becomes the
  final sigma (962) and not the sigma (963); on the texts of the example runs this is
  what \<^verbatim>\<open>String.prototype.toLowerCase\<close> gives. Its other texts are stand-ins, and
  no property depends on them.
\<close>

definition cased_letter :: "nat \<Rightarrow> bool" where
  "cased_letter u =
     ((65 \<le> u \<and> u \<le> 90) \<or> (97 \<le> u \<and> u \<le> 122)
      \<or> (192 \<le> u \<and> u \<le> 255 \<and> u \<noteq> 215 \<and> u \<noteq> 247)
      \<or> (913 \<le> u \<and> u \<le> 969 \<and> u \<noteq> 930))"

definition lower_unit :: "nat \<Rightarrow> nat" where
  "lower_unit u =
     (if (65 \<le> u \<and> u \<le> 90) \<or> (192 \<le> u \<and> u \<le> 222 \<and> u \<noteq> 215)
         \<or> (913 \<le> u \<and> u \<le> 939 \<and> u \<noteq> 930)
      then u + 32 else u)"

fun lower_units :: "bool \<Rightarrow> jsstring \<Rightarrow> jsstring" where
  "lower_units after_letter [] = []"
| "lower_units after_letter (u # us) =
     (if u = 931 \<and> after_letter \<and> (case us of [] \<Rightarrow> True | v # vs \<Rightarrow> \<not> cased_letter v)
      then 962 else lower_unit u) # lower_units (cased_letter u) us"

fun decimal :: "nat \<Rightarrow> jsstring" where
  "decimal n =
     (if n < 10 then [48 + n] else decimal (n div 10) @ [48 + n mod 10])"

definition number_text :: "jsnum \<Rightarrow> jsstring" where
  "number_text n =
     (case n of
        Fin r \<Rightarrow> if r = of_int \<lfloor>r\<rfloor> \<and> 0 \<le> r then decimal (nat \<lfloor>r\<rfloor>) else str ''<other number>''
      | NaN \<Rightarrow> str ''NaN''
      | PosInf \<Rightarrow> str ''Infinity''
      | NegInf \<Rightarrow> str ''-Infinity'')"

definition example_runtime :: builtins where
  "example_runtime =
     \<lparr>num_to_string = number_text,
      JSON_stringify = (\<lambda>v. (str ''<json>'')),
      toLowerCase = lower_units False,
      cannot_read = (\<lambda>v k. (str ''Cannot read properties of null or undefined (reading '') @ k @ str '')''),
      not_a_function = (\<lambda>f. f @ str '' is not a function''),
      cannot_convert = str ''Cannot convert object to primitive value''\<rparr>"

definition configured_env :: env where
  "configured_env =
     map_of [(str ''WAVE_API_KEY'', str ''key''), (str ''WAVE_BUSINESS_ID'', str ''biz''),
             (str ''WAVE_PRODUCT_ID'', str ''prod'')]"

definition empty_env :: env where
  "empty_env = map_of []"

definition invoice_request :: "jsstring \<Rightarrow> request" where
  "invoice_request key =
     \<lparr>req_method = str ''POST'',
      req_body = JObj [(str ''contractData'',
                          JObj [(str ''clientName'', JStr (str ''Ada'')),
                                (str ''clientEmail'', JStr (str ''ada@example.org'')),
                                (str ''contractId'', JStr (str ''C-1''))]),
                       (str ''invoice'', JObj [(str ''packageKey'', JStr key)])],
      req_query = JUndefined\<rparr>"

text \<open>
  The same request with a package key that is an object with an own \<^verbatim>\<open>toString\<close>
  property, which has no conversion to a text.
\<close>

definition object_key_request :: request where
  "object_key_request =
     \<lparr>req_method = str ''POST'',
      req_body = JObj [(str ''contractData'',
                          JObj [(str ''clientName'', JStr (str ''Ada'')),
                                (str ''clientEmail'', JStr (str ''ada@example.org'')),
                                (str ''contractId'', JStr (str ''C-1''))]),
                       (str ''invoice'',
                          JObj [(str ''packageKey'', JObj [(str ''toString'', JNum (Fin 1))])])],
      req_query = JUndefined\<rparr>"

text \<open>A service that cannot be reached.\<close>

definition offline :: world where
  "offline c = NetworkError (JsError (str ''fetch failed'') JUndefined)"

text \<open>
  The condition in the words of the specification of the call primitive: the body has
  a top-level errors list that is not empty.
\<close>

definition spec_nonempty_errors_list :: "jsval \<Rightarrow> bool" where
  "spec_nonempty_errors_list body =
     (case read_prop body (str ''errors'') of JArr (x # xs) \<Rightarrow> True | _ \<Rightarrow> False)"

text \<open>Answers of the service: an empty errors list, a GraphQL error, and data.\<close>

definition empty_errors_body :: jsval where
  "empty_errors_body = JObj [(str ''errors'', JArr []), (str ''data'', JObj [(str ''businesses'', JNull)])]"

definition empty_errors_service :: world where
  "empty_errors_service c = Response True (str ''OK'') (Inr empty_errors_body)"

definition graphql_errors :: jsval where
  "graphql_errors = JArr [JObj [(str ''message'', JStr (str ''Invalid token''))]]"

definition graphql_error_service :: world where
  "graphql_error_service c = Response True (str ''OK'') (Inr (JObj [(str ''errors'', graphql_errors)]))"

definition data_service :: world where
  "data_service c = Response True (str ''OK'') (Inr (JObj [(str ''data'', JObj [(str ''businesses'', JNull)])]))"

text \<open>
  Answers of the service to a mutation: the operation succeeded with an entity, or it
  was rejected with a list of input errors.
\<close>

definition ok_data :: "jsval \<Rightarrow> fetch_outcome" where
  "ok_data d = Response True (str ''OK'') (Inr (JObj [(str ''data'', d)]))"

definition succeeded :: "jsstring \<Rightarrow> jsstring \<Rightarrow> jsval \<Rightarrow> fetch_outcome" where
  "succeeded field entity v =
     ok_data (JObj [(field, JObj [(str ''didSucceed'', JBool True), (str ''inputErrors'', JNull),
                                  (entity, v)])])"

definition rejected :: "jsstring \<Rightarrow> jsstring \<Rightarrow> jsval \<Rightarrow> fetch_outcome" where
  "rejected field entity errs =
     ok_data (JObj [(field, JObj [(str ''didSucceed'', JBool False), (str ''inputErrors'', errs),
                                  (entity, JNull)])])"

text \<open>
  A service that creates the customer and the invoice, rejects the approval and sends
  the invoice.
\<close>

definition approval_fails_service :: world where
  "approval_fails_service c =
     (case c of
        CustomerCreate b n e \<Rightarrow>
          succeeded (str ''customerCreate'') (str ''customer'') (JObj [(str ''id'', JStr (str ''cus_1''))])
      | InvoiceCreate b cu cy ct p u \<Rightarrow>
          succeeded (str ''invoiceCreate'') (str ''invoice'')
            (JObj [(str ''id'', JStr (str ''inv_1'')), (str ''status'', JStr (str ''DRAFT'')),
                   (str ''viewUrl'', JStr (str ''https://wave.example/view/inv_1''))])
      | InvoiceApprove i \<Rightarrow>
          rejected (str ''invoiceApprove'') (str ''invoice'')
            (JArr [JObj [(str ''code'', JStr (str ''INVALID'')), (str ''message'', JStr (str ''Cannot approve''))]])
      | InvoiceSend i \<Rightarrow>
          succeeded (str ''invoiceSend'') (str ''invoice'')
            (JObj [(str ''id'', JStr (str ''inv_1'')),
                   (str ''viewUrl'', JStr (str ''https://wave.example/pay/inv_1''))])
      | _ \<Rightarrow> NetworkError (JsError (str ''fetch failed'') JUndefined))"

text \<open>A service that rejects the operation with two input errors.\<close>

definition input_errors :: jsval where
  "input_errors =
     JArr [JObj [(str ''code'', JStr (str ''INVALID'')), (str ''message'', JStr (str ''Email is invalid''))],
           JObj [(str ''code'', JStr (str ''REQUIRED'')), (str ''message'', JStr (str ''Name is required''))]]"

definition rejecting_service :: world where
  "rejecting_service c = rejected (str ''customerCreate'') (str ''customer'') input_errors"

text \<open>
  The best available URL: the one the send step returned, if it succeeded and returned
  one, otherwise the view URL of the created invoice.
\<close>

definition best_url :: "js_error + jsval \<Rightarrow> jsval \<Rightarrow> jsval" where
  "best_url sent viewUrl =
     (case sent of Inr sentUrl \<Rightarrow> if truthy sentUrl then sentUrl else viewUrl | Inl e \<Rightarrow> viewUrl)"

text \<open>An upload: environment, request and a repository that accepts the file.\<close>

definition github_env :: env where
  "github_env = map_of [(str ''GITHUB_TOKEN'', str ''token''), (str ''GITHUB_REPO'', str ''owner/repo'')]"

definition upload_request :: "jsstring \<Rightarrow> request" where
  "upload_request name =
     \<lparr>req_method = str ''POST'',
      req_body = JObj [(str ''filename'', JStr name), (str ''content'', JStr (str ''JVBERi0=''))],
      req_query = JUndefined\<rparr>"

definition github_created :: github_world where
  "github_created c =
     Response True (str ''Created'')
       (Inr (JObj [(str ''content'', JObj [(str ''sha'', JStr (str ''abc123'')),
          (str ''download_url'', JStr (str ''https://raw.example/'' @ gh_path c))])]))"

text \<open>A GET without body or query.\<close>

definition get_request :: request where
  "get_request = \<lparr>req_method = str ''GET'', req_body = JUndefined, req_query = JUndefined\<rparr>"

text \<open>
  The error with which a listing handler fails after its configuration check, if it
  does: the one raised by the call, or else the one raised while the answer is built
  from the data.
\<close>

definition listing_failure ::
  "(js_error + jsval) \<times> wave_call list \<Rightarrow> (jsval \<Rightarrow> js_error + jsval) \<Rightarrow> js_error option" where
  "listing_failure answer build =
     (case answer of
        (Inl e, tr) \<Rightarrow> Some e
      | (Inr data, tr) \<Rightarrow> (case build data of Inl e \<Rightarrow> Some e | Inr body \<Rightarrow> None))"

text \<open>
  The words of the specification of the products listing. The name of a product as a
  text; a name that is not a string counts as empty. Two code units are the same letter
  when they are equal or are the capital (65 to 90) and the small form (97 to 122) of
  one of the letters A to Z. A text contains another as a case-insensitive substring
  when one of its substrings has the same letters, unit by unit. A text is ASCII when
  its code units are below 128. Last, the products the service returned, before
  filtering.
\<close>

definition name_text :: "jsval \<Rightarrow> jsstring" where
  "name_text p = (case read_prop p (str ''name'') of JStr s \<Rightarrow> s | _ \<Rightarrow> [])"

definition same_letter :: "nat \<Rightarrow> nat \<Rightarrow> bool" where
  "same_letter u v =
     (u = v \<or> (65 \<le> u \<and> u \<le> 90 \<and> v = u + 32) \<or> (65 \<le> v \<and> v \<le> 90 \<and> u = v + 32))"

definition contains_ignoring_case :: "jsstring \<Rightarrow> jsstring \<Rightarrow> bool" where
  "contains_ignoring_case name q =
     (\<exists>pre mid post. name = pre @ mid @ post \<and> list_all2 same_letter mid q)"

definition ascii :: "jsstring \<Rightarrow> bool" where
  "ascii s = (\<forall>u\<in>set s. u < 128)"

definition all_products :: "builtins \<Rightarrow> jsval \<Rightarrow> jsval list" where
  "all_products B data =
     (case get_prop B data (str ''business'') of
        Inl e \<Rightarrow> []
      | Inr business \<Rightarrow>
          (case edges_of business (str ''products'') of
             JArr es \<Rightarrow> (case map_node B es of Inl e \<Rightarrow> [] | Inr nodes \<Rightarrow> nodes)
           | other \<Rightarrow> []))"

text \<open>
  A products listing with a query, and the data and the answer of a service that has
  the given products. Four products with English names, one of them without a name; and
  one product with the Greek name of four capitals omicron, delta, omicron, sigma.
\<close>

definition products_query :: "jsstring \<Rightarrow> request" where
  "products_query q =
     \<lparr>req_method = str ''GET'', req_body = JUndefined, req_query = JObj [(str ''q'', JStr q)]\<rparr>"

definition products_data :: "jsval list \<Rightarrow> jsval" where
  "products_data ps =
     JObj [(str ''business'',
       JObj [(str ''id'', JStr (str ''biz'')), (str ''name'', JStr (str ''Studio'')),
             (str ''products'',
                JObj [(str ''edges'', JArr (map (\<lambda>p. JObj [(str ''node'', p)]) ps))])])]"

definition products_service :: "jsval list \<Rightarrow> world" where
  "products_service ps c = Response True (str ''OK'') (Inr (JObj [(str ''data'', products_data ps)]))"

definition product_list :: "jsval list" where
  "product_list =
     [JObj [(str ''id'', JStr (str ''p1'')), (str ''name'', JStr (str ''Core System Package''))],
      JObj [(str ''id'', JStr (str ''p2'')), (str ''name'', JStr (str ''Growth Accelerator Package''))],
      JObj [(str ''id'', JStr (str ''p3'')), (str ''name'', JNull)],
      JObj [(str ''id'', JStr (str ''p4'')), (str ''name'', JStr (str ''Studio Retainer Hours''))]]"

definition greek_products :: "jsval list" where
  "greek_products = [JObj [(str ''id'', JStr (str ''p9'')), (str ''name'', JStr [927, 916, 927, 931])]]"

section \<open>Properties\<close>

subsection \<open>Literals\<close>

lemma str_eq_iff [simp]: "str a = str b \<longleftrightarrow> a = b"
  by (simp add: str_def inj_map_eq_map inj_on_def)

lemma str_Nil_iff [simp]: "str s = [] \<longleftrightarrow> s = []" "[] = str s \<longleftrightarrow> s = []"
  by (auto simp: str_def)

lemma str_append [simp]: "str a @ str b = str (a @ b)"
  by (simp add: str_def)

subsection \<open>The branches of the invoice handler\<close>

lemma statusCode_json: "statusCode (json n d) = n"
  by (simp add: json_def)

lemma invoice_steps_fatal:
  "fst (invoice_steps B env w req) = Inl e \<longleftrightarrow> fatal_error B env w req = Some e"
  by (auto simp: invoice_steps_def fatal_error_def split: prod.splits sum.splits)

lemma invoice_steps_ok:
  "fatal_error B env w req = None \<Longrightarrow> \<exists>i u tr. invoice_steps B env w req = (Inr (i, u), tr)"
  by (auto simp: invoice_steps_def fatal_error_def split: prod.splits sum.splits)

lemma invoice_handler_not_post:
  "req_method req \<noteq> str ''POST'' \<Longrightarrow>
   invoice_handler B env w req = (json 405 (JObj [(str ''error'', JStr (str ''Method not allowed''))]), [])"
  by (simp add: invoice_handler_def)

lemma invoice_handler_missing:
  "req_method req = str ''POST'' \<Longrightarrow> missing_fields req \<Longrightarrow>
   invoice_handler B env w req =
     (json 400 (JObj [(str ''error'', JStr (str ''Missing contractData or invoice.packageKey''))]), [])"
  by (simp add: invoice_handler_def)

lemma invoice_handler_demo:
  "req_method req = str ''POST'' \<Longrightarrow> \<not> missing_fields req \<Longrightarrow> \<not> configured env \<Longrightarrow>
   invoice_handler B env w req = (demo_response, [])"
  by (simp add: invoice_handler_def)

lemma invoice_handler_fallback:
  assumes "req_method req = str ''POST''" "\<not> missing_fields req" "configured env"
    and "invoice_steps B env w req = (Inl e, tr)"
  shows "invoice_handler B env w req = (fallback_response e, tr)"
  using assms by (simp add: invoice_handler_def)

lemma invoice_handler_live:
  assumes "req_method req = str ''POST''" "\<not> missing_fields req" "configured env"
    and "invoice_steps B env w req = (Inr (i, u), tr)"
  shows "invoice_handler B env w req = (live_response i u, tr)"
  using assms by (simp add: invoice_handler_def)

lemma invoice_handler_fatal:
  assumes "req_method req = str ''POST''" "\<not> missing_fields req" "configured env"
    and "fatal_error B env w req = Some e"
  shows "fst (invoice_handler B env w req) = fallback_response e"
proof -
  from assms(4) have "fst (invoice_steps B env w req) = Inl e"
    by (simp add: invoice_steps_fatal)
  then obtain tr where "invoice_steps B env w req = (Inl e, tr)"
    by (cases "invoice_steps B env w req") simp
  from invoice_handler_fallback [OF assms(1-3) this] show ?thesis
    by simp
qed

lemma invoice_handler_no_fatal:
  assumes "req_method req = str ''POST''" "\<not> missing_fields req" "configured env"
    and "fatal_error B env w req = None"
  shows "\<exists>i u. fst (invoice_handler B env w req) = live_response i u"
proof -
  from invoice_steps_ok [OF assms(4)]
  obtain i u tr where "invoice_steps B env w req = (Inr (i, u), tr)"
    by blast
  from invoice_handler_live [OF assms(1-3) this] show ?thesis
    by auto
qed

lemma fallback_fields:
  "statusCode (fallback_response e) = 200"
  "mode (fallback_response e) = JStr (str ''fallback'')"
  "read_prop (payload (fallback_response e)) (str ''paymentUrl'')
     = JStr (str ''https://link.waveapps.com/payment-demo'')"
  "read_prop (payload (fallback_response e)) (str ''error'')
     = JStr (if message e \<noteq> [] then message e else str ''Unknown error'')"
  "read_prop (payload (fallback_response e)) (str ''errorDetails'') = js_or (waveErrors e) JNull"
  by (simp_all add: fallback_response_def json_def mode_def)

lemma demo_fields:
  "statusCode demo_response = 200"
  "mode demo_response = JStr (str ''demo'')"
  "read_prop (payload demo_response) (str ''paymentUrl'') = JStr (str ''https://link.waveapps.com/payment-demo'')"
  by (simp_all add: demo_response_def json_def mode_def)

lemma live_fields:
  "statusCode (live_response i u) = 200"
  "mode (live_response i u) = JStr (str ''live'')"
  "read_prop (payload (live_response i u)) (str ''invoiceId'') = i"
  "read_prop (payload (live_response i u)) (str ''paymentUrl'') = u"
  by (simp_all add: live_response_def json_def mode_def)

lemma example_request_ok:
  "req_method (invoice_request key) = str ''POST''"
  "key \<noteq> [] \<Longrightarrow> \<not> missing_fields (invoice_request key)"
  by (simp_all add: invoice_request_def missing_fields_def contractData_def invoice_def js_or_def)

lemma example_envs:
  "configured configured_env"
  "\<not> configured empty_env"
  by (simp_all add: configured_def configured_env_def empty_env_def env_or_empty_def)

subsection \<open>Failure policy of the invoice endpoint\<close>

text \<open>
  C1. A request that is not a POST is answered 405 and a POST whose body lacks
  \<^verbatim>\<open>contractData\<close> or \<^verbatim>\<open>invoice.packageKey\<close> is answered 400. Every other request
  is answered 200: in mode demo, with the fixed placeholder URL and without any call to
  the service, when the API key or the business identifier is not configured; in mode
  fallback, with the placeholder URL, the message of the error and its details, when
  customer creation or invoice creation raises; in mode live otherwise.
\<close>

theorem C1_failure_policy:
  "(req_method req \<noteq> str ''POST'' \<longrightarrow> statusCode (fst (invoice_handler B env w req)) = 405)
   \<and> (req_method req = str ''POST'' \<and> missing_fields req \<longrightarrow>
        statusCode (fst (invoice_handler B env w req)) = 400)
   \<and> (req_method req = str ''POST'' \<and> \<not> missing_fields req \<longrightarrow>
        statusCode (fst (invoice_handler B env w req)) = 200
        \<and> (\<not> configured env \<longrightarrow>
             invoice_handler B env w req = (demo_response, [])
             \<and> mode demo_response = JStr (str ''demo'')
             \<and> read_prop (payload demo_response) (str ''paymentUrl'')
                 = JStr (str ''https://link.waveapps.com/payment-demo''))
        \<and> (configured env \<longrightarrow>
             (case fatal_error B env w req of
                Some e \<Rightarrow>
                  fst (invoice_handler B env w req) = fallback_response e
                  \<and> mode (fallback_response e) = JStr (str ''fallback'')
                  \<and> read_prop (payload (fallback_response e)) (str ''paymentUrl'')
                      = JStr (str ''https://link.waveapps.com/payment-demo'')
                  \<and> read_prop (payload (fallback_response e)) (str ''error'')
                      = JStr (if message e \<noteq> [] then message e else str ''Unknown error'')
                  \<and> read_prop (payload (fallback_response e)) (str ''errorDetails'')
                      = js_or (waveErrors e) JNull
              | None \<Rightarrow> mode (fst (invoice_handler B env w req)) = JStr (str ''live''))))"
proof (intro conjI impI)
  assume "req_method req \<noteq> str ''POST''"
  then show "statusCode (fst (invoice_handler B env w req)) = 405"
    by (simp add: invoice_handler_not_post statusCode_json)
next
  assume "req_method req = str ''POST'' \<and> missing_fields req"
  then show "statusCode (fst (invoice_handler B env w req)) = 400"
    by (simp add: invoice_handler_missing statusCode_json)
next
  assume a: "req_method req = str ''POST'' \<and> \<not> missing_fields req"
  show "statusCode (fst (invoice_handler B env w req)) = 200"
  proof (cases "configured env")
    case False
    with a show ?thesis
      by (simp add: invoice_handler_demo demo_fields)
  next
    case True
    show ?thesis
    proof (cases "fatal_error B env w req")
      case None
      with a True invoice_handler_no_fatal [of req env B w] show ?thesis
        by (auto simp: live_fields)
    next
      case (Some e)
      with a True show ?thesis
        by (simp add: invoice_handler_fatal fallback_fields)
    qed
  qed
next
  assume "req_method req = str ''POST'' \<and> \<not> missing_fields req" "\<not> configured env"
  then show "invoice_handler B env w req = (demo_response, [])"
    by (simp add: invoice_handler_demo)
next
  show "mode demo_response = JStr (str ''demo'')"
    by (rule demo_fields)
next
  show "read_prop (payload demo_response) (str ''paymentUrl'')
          = JStr (str ''https://link.waveapps.com/payment-demo'')"
    by (rule demo_fields)
next
  assume a: "req_method req = str ''POST'' \<and> \<not> missing_fields req" and c: "configured env"
  show "case fatal_error B env w req of
          Some e \<Rightarrow>
            fst (invoice_handler B env w req) = fallback_response e
            \<and> mode (fallback_response e) = JStr (str ''fallback'')
            \<and> read_prop (payload (fallback_response e)) (str ''paymentUrl'')
                = JStr (str ''https://link.waveapps.com/payment-demo'')
            \<and> read_prop (payload (fallback_response e)) (str ''error'')
                = JStr (if message e \<noteq> [] then message e else str ''Unknown error'')
            \<and> read_prop (payload (fallback_response e)) (str ''errorDetails'')
                = js_or (waveErrors e) JNull
        | None \<Rightarrow> mode (fst (invoice_handler B env w req)) = JStr (str ''live'')"
  proof (cases "fatal_error B env w req")
    case None
    with a c invoice_handler_no_fatal [of req env B w] show ?thesis
      by (auto simp: live_fields)
  next
    case (Some e)
    with a c show ?thesis
      by (simp add: invoice_handler_fatal fallback_fields)
  qed
qed

text \<open>
  The policy on three runs of a well-formed request for the growth package: the service
  cannot be reached (fallback), the environment is empty (demo), and the method is GET
  (405).
\<close>

theorem C1_failure_policy_witness:
  "fst (invoice_handler example_runtime configured_env offline (invoice_request (str ''growth'')))
     = fallback_response (JsError (str ''fetch failed'') JUndefined)
   \<and> statusCode (fst (invoice_handler example_runtime configured_env offline
         (invoice_request (str ''growth'')))) = 200
   \<and> invoice_handler example_runtime empty_env offline (invoice_request (str ''growth''))
     = (demo_response, [])
   \<and> statusCode (fst (invoice_handler example_runtime configured_env offline
         ((invoice_request (str ''growth''))\<lparr>req_method := str ''GET''\<rparr>))) = 405"
proof -
  have f: "fatal_error example_runtime configured_env offline (invoice_request (str ''growth''))
             = Some (JsError (str ''fetch failed'') JUndefined)"
    by (simp add: fatal_error_def customer_step_def createCustomer_def mutation_def
        waveQuery_def configured_env_def env_or_empty_def wave_response_def offline_def)
  from C1_failure_policy [of "invoice_request (str ''growth'')" example_runtime configured_env offline]
    C1_failure_policy [of "invoice_request (str ''growth'')" example_runtime empty_env offline]
    C1_failure_policy [of "(invoice_request (str ''growth''))\<lparr>req_method := str ''GET''\<rparr>"
      example_runtime configured_env offline]
    example_request_ok [of "str ''growth''"] example_envs f
  show ?thesis by (simp add: fallback_fields)
qed

subsection \<open>Validation comes before the configuration check\<close>

text \<open>
  C10. Whatever the environment, configured or not, a request that is not a POST is
  answered 405 and a POST whose body lacks \<^verbatim>\<open>contractData\<close> or
  \<^verbatim>\<open>invoice.packageKey\<close> is answered 400, both without a call to the service; the
  answer to such a request is never in mode demo.
\<close>

theorem C10_validation_before_demo:
  "(req_method req \<noteq> str ''POST'' \<longrightarrow>
      invoice_handler B env w req
        = (json 405 (JObj [(str ''error'', JStr (str ''Method not allowed''))]), []))
   \<and> (req_method req = str ''POST'' \<and> missing_fields req \<longrightarrow>
      invoice_handler B env w req
        = (json 400 (JObj [(str ''error'', JStr (str ''Missing contractData or invoice.packageKey''))]), []))
   \<and> (req_method req \<noteq> str ''POST'' \<or> missing_fields req \<longrightarrow>
      mode (fst (invoice_handler B env w req)) \<noteq> JStr (str ''demo''))"
proof (intro conjI impI)
  assume "req_method req \<noteq> str ''POST''"
  then show "invoice_handler B env w req
      = (json 405 (JObj [(str ''error'', JStr (str ''Method not allowed''))]), [])"
    by (rule invoice_handler_not_post)
next
  assume "req_method req = str ''POST'' \<and> missing_fields req"
  then show "invoice_handler B env w req
      = (json 400 (JObj [(str ''error'', JStr (str ''Missing contractData or invoice.packageKey''))]), [])"
    by (simp add: invoice_handler_missing)
next
  assume "req_method req \<noteq> str ''POST'' \<or> missing_fields req"
  then show "mode (fst (invoice_handler B env w req)) \<noteq> JStr (str ''demo'')"
    by (cases "req_method req = str ''POST''")
      (auto simp: invoice_handler_not_post invoice_handler_missing mode_def json_def)
qed

text \<open>
  With an empty environment: a GET is answered 405, and a POST whose body has no
  \<^verbatim>\<open>invoice\<close> is answered 400.
\<close>

theorem C10_validation_before_demo_witness:
  "\<not> configured empty_env
   \<and> statusCode (fst (invoice_handler example_runtime empty_env offline
        \<lparr>req_method = str ''GET'', req_body = JUndefined, req_query = JUndefined\<rparr>)) = 405
   \<and> statusCode (fst (invoice_handler example_runtime empty_env offline
        \<lparr>req_method = str ''POST'', req_body = JObj [(str ''contractData'', JObj [])],
         req_query = JUndefined\<rparr>)) = 400"
proof -
  have m: "missing_fields \<lparr>req_method = str ''POST'', req_body = JObj [(str ''contractData'', JObj [])],
         req_query = JUndefined\<rparr>"
    by (simp add: missing_fields_def contractData_def invoice_def js_or_def)
  from C10_validation_before_demo [of
      "\<lparr>req_method = str ''GET'', req_body = JUndefined, req_query = JUndefined\<rparr>"
      example_runtime empty_env offline]
    C10_validation_before_demo [of
      "\<lparr>req_method = str ''POST'', req_body = JObj [(str ''contractData'', JObj [])],
         req_query = JUndefined\<rparr>"
      example_runtime empty_env offline]
    m example_envs
  show ?thesis by (simp add: statusCode_json)
qed

subsection \<open>The deposit\<close>

lemma mutation_trace:
  "mutation B env w c field entity pre tr = (r, tr') \<Longrightarrow>
   tr' = (if env_or_empty env (str ''WAVE_API_KEY'') = [] then tr else tr @ [c])"
  by (auto simp: mutation_def waveQuery_def split: sum.splits if_splits)

lemma catalog_cases:
  "map_of PACKAGE_CATALOG key = Some pkg \<Longrightarrow>
   (key = str ''core'' \<and> pkg_price pkg = 5000) \<or> (key = str ''growth'' \<and> pkg_price pkg = 7500)
   \<or> (key = str ''full'' \<and> pkg_price pkg = 10000)"
  by (auto simp: PACKAGE_CATALOG_def split: if_splits)

lemma deposit_of_catalog_price:
  "p = 5000 \<or> p = 7500 \<or> p = 10000 \<Longrightarrow> deposit_of_price p = p / 2"
  by (auto simp: deposit_of_price_def Math_round_def floor_eq_iff)

lemma createInvoice_trace:
  assumes "ToString B k = Inr key" "map_of PACKAGE_CATALOG key = Some pkg"
    and "env_or_empty env (str ''WAVE_API_KEY'') \<noteq> []" "resolve_productId env key \<noteq> ProductId []"
    and "ToString B ct = Inr contract"
  shows "snd (createInvoice B env w bid cid cur k ct tr)
     = tr @ [InvoiceCreate bid cid cur contract (resolve_productId env key)
               (num_to_string B (Fin (deposit_of_price (pkg_price pkg))))]"
  using assms
  by (auto simp: createInvoice_def literal_lookup_def deposit_def
      split: prod.splits sum.splits dest: mutation_trace)

text \<open>
  C2. For every key of the catalog, the deposit is the value of the cents-safe rule
  (half the price times 100, rounded to the nearest integer, divided by 100), and this
  is exactly half the catalog price. It is the unit price of the invoice-creation call
  that the workflow issues for a package key with this text, once an API key and a
  product identifier are configured and the contract identifier has a text.
\<close>

theorem C2_deposit_half_price:
  assumes "map_of PACKAGE_CATALOG key = Some pkg"
  shows "deposit (literal_lookup PACKAGE_CATALOG key)
           = Fin (of_int (Math_round (pkg_price pkg * (1 / 2) * 100)) / 100)
       \<and> deposit (literal_lookup PACKAGE_CATALOG key) = Fin (pkg_price pkg / 2)
       \<and> (ToString B k = Inr key \<and> env_or_empty env (str ''WAVE_API_KEY'') \<noteq> []
            \<and> resolve_productId env key \<noteq> ProductId [] \<and> ToString B ct = Inr contract \<longrightarrow>
          snd (createInvoice B env w bid cid cur k ct tr)
            = tr @ [InvoiceCreate bid cid cur contract (resolve_productId env key)
                      (num_to_string B (Fin (pkg_price pkg / 2)))])"
proof -
  from assms have d: "deposit (literal_lookup PACKAGE_CATALOG key)
      = Fin (deposit_of_price (pkg_price pkg))"
    by (simp add: deposit_def literal_lookup_def)
  from catalog_cases [OF assms] have h: "deposit_of_price (pkg_price pkg) = pkg_price pkg / 2"
    by (intro deposit_of_catalog_price) auto
  from d have "deposit (literal_lookup PACKAGE_CATALOG key)
           = Fin (of_int (Math_round (pkg_price pkg * (1 / 2) * 100)) / 100)"
    by (simp add: deposit_of_price_def)
  moreover from d h have "deposit (literal_lookup PACKAGE_CATALOG key) = Fin (pkg_price pkg / 2)"
    by simp
  moreover have "ToString B k = Inr key \<and> env_or_empty env (str ''WAVE_API_KEY'') \<noteq> []
            \<and> resolve_productId env key \<noteq> ProductId [] \<and> ToString B ct = Inr contract \<longrightarrow>
          snd (createInvoice B env w bid cid cur k ct tr)
            = tr @ [InvoiceCreate bid cid cur contract (resolve_productId env key)
                      (num_to_string B (Fin (pkg_price pkg / 2)))]"
    using createInvoice_trace [of B k key pkg env ct contract w bid cid cur tr] assms h by simp
  ultimately show ?thesis by blast
qed

text \<open>
  The growth package, price 7500: the deposit is 3750, and the invoice-creation call
  carries the unit price \<^verbatim>\<open>3750\<close>.
\<close>

theorem C2_deposit_half_price_witness:
  "map_of PACKAGE_CATALOG (str ''growth'')
     = Some \<lparr>pkg_name = str ''Growth Accelerator Package'', pkg_price = 7500\<rparr>
   \<and> deposit (literal_lookup PACKAGE_CATALOG (str ''growth'')) = Fin 3750
   \<and> snd (createInvoice example_runtime configured_env offline (str ''biz'') (JStr (str ''cus_1'')) (str ''USD'')
        (JStr (str ''growth'')) (JStr (str ''C-1'')) [])
      = [InvoiceCreate (str ''biz'') (JStr (str ''cus_1'')) (str ''USD'') (str ''C-1'') (ProductId (str ''prod'')) (str ''3750'')]"
proof -
  have c: "map_of PACKAGE_CATALOG (str ''growth'')
     = Some \<lparr>pkg_name = str ''Growth Accelerator Package'', pkg_price = 7500\<rparr>"
    by (simp add: PACKAGE_CATALOG_def)
  have k: "env_or_empty configured_env (str ''WAVE_API_KEY'') \<noteq> []"
    by (simp add: configured_env_def env_or_empty_def)
  have p: "resolve_productId configured_env (str ''growth'') = ProductId (str ''prod'')"
    by (simp add: resolve_productId_def literal_lookup_def productIdMap_def
        configured_env_def env_or_empty_def)
  have n: "num_to_string example_runtime (Fin (7500 / 2)) = str ''3750''"
    by (simp add: example_runtime_def number_text_def str_def)
  from C2_deposit_half_price [OF c, of example_runtime "JStr (str ''growth'')" configured_env
      "JStr (str ''C-1'')" "str ''C-1''" offline "str ''biz''" "JStr (str ''cus_1'')" "str ''USD''" "[]"] c k p n
  show ?thesis by (simp add: Math_round_def floor_eq_iff)
qed

subsection \<open>The call primitive\<close>

lemma get_prop_defined:
  "v \<noteq> JUndefined \<Longrightarrow> v \<noteq> JNull \<Longrightarrow> get_prop B v k = Inr (read_prop v k)"
  by (cases v) simp_all

text \<open>
  C4, amended. Given an API key and an answer whose body parsed to a value other than
  \<^verbatim>\<open>null\<close>, the call primitive raises if and only if the transport status is not
  successful or \<^verbatim>\<open>body.errors\<close> is truthy, which every list is, the empty one too.
  The message of the error is \<^verbatim>\<open>Wave GraphQL error: \<close> followed by the serialized
  errors when they are truthy and by the status text otherwise, and the error carries
  the errors (or \<^verbatim>\<open>null\<close>) as \<^verbatim>\<open>waveErrors\<close>. When it does not raise it returns
  \<^verbatim>\<open>body.data\<close>.
\<close>

theorem C4_waveQuery_raises_iff_errors_truthy:
  assumes "env_or_empty env (str ''WAVE_API_KEY'') \<noteq> []"
    and "w c = Response ok stext (Inr body)"
    and "body \<noteq> JUndefined" "body \<noteq> JNull"
  shows "(isl (fst (waveQuery B env w c tr)) \<longleftrightarrow> \<not> ok \<or> truthy (read_prop body (str ''errors'')))
     \<and> (\<not> ok \<or> truthy (read_prop body (str ''errors'')) \<longrightarrow>
          fst (waveQuery B env w c tr)
            = Inl (JsError
                 (str ''Wave GraphQL error: '' @
                    (if truthy (read_prop body (str ''errors''))
                     then JSON_stringify B (read_prop body (str ''errors'')) else stext))
                 (js_or (read_prop body (str ''errors'')) JNull)))
     \<and> (ok \<and> \<not> truthy (read_prop body (str ''errors'')) \<longrightarrow>
          fst (waveQuery B env w c tr) = Inr (read_prop body (str ''data'')))
     \<and> (read_prop body (str ''errors'') = JArr xs \<longrightarrow> isl (fst (waveQuery B env w c tr)))"
  using assms
  by (auto simp: waveQuery_def wave_response_def get_prop_defined)

text \<open>
  C4 as stated fails: a successful answer with the empty errors list makes the
  primitive raise, though the status is successful and the list is empty.
\<close>

theorem C4_empty_errors_list_counterexample:
  "\<not> (isl (fst (waveQuery example_runtime configured_env empty_errors_service BusinessesQuery []))
        \<longleftrightarrow> \<not> resp_ok (empty_errors_service BusinessesQuery)
              \<or> spec_nonempty_errors_list empty_errors_body)"
  by (simp add: waveQuery_def wave_response_def configured_env_def env_or_empty_def
      empty_errors_service_def empty_errors_body_def spec_nonempty_errors_list_def)

text \<open>
  A successful answer with one GraphQL error raises, with the errors attached; a
  successful answer without errors returns the data.
\<close>

theorem C4_waveQuery_raises_iff_errors_truthy_witness:
  "fst (waveQuery example_runtime configured_env graphql_error_service BusinessesQuery [])
     = Inl (JsError (str ''Wave GraphQL error: <json>'') graphql_errors)
   \<and> fst (waveQuery example_runtime configured_env data_service BusinessesQuery [])
     = Inr (JObj [(str ''businesses'', JNull)])"
proof -
  have k: "env_or_empty configured_env (str ''WAVE_API_KEY'') \<noteq> []"
    by (simp add: configured_env_def env_or_empty_def)
  from C4_waveQuery_raises_iff_errors_truthy [OF k, of graphql_error_service BusinessesQuery
      True "str ''OK''" "JObj [(str ''errors'', graphql_errors)]" example_runtime _ "[]"]
    C4_waveQuery_raises_iff_errors_truthy [OF k, of data_service BusinessesQuery
      True "str ''OK''" "JObj [(str ''data'', JObj [(str ''businesses'', JNull)])]" example_runtime _ "[]"]
  show ?thesis
    by (simp add: graphql_error_service_def data_service_def graphql_errors_def js_or_def
        example_runtime_def)
qed

subsection \<open>Approval and sending are best effort\<close>

lemma approveInvoice_trace:
  "approveInvoice B env w i tr = (r, tr') \<Longrightarrow>
   tr' = (if env_or_empty env (str ''WAVE_API_KEY'') = [] then tr else tr @ [InvoiceApprove i])"
  by (auto simp: approveInvoice_def split: prod.splits sum.splits dest: mutation_trace)

lemma sendInvoice_trace:
  "sendInvoice B env w i tr = (r, tr') \<Longrightarrow>
   tr' = (if env_or_empty env (str ''WAVE_API_KEY'') = [] then tr else tr @ [InvoiceSend i])"
  by (auto simp: sendInvoice_def split: prod.splits sum.splits dest: mutation_trace)

lemma createCustomer_trace:
  "createCustomer B env w b n e tr = (r, tr') \<Longrightarrow>
   tr' = (if env_or_empty env (str ''WAVE_API_KEY'') = [] then tr else tr @ [CustomerCreate b n e])"
  by (auto simp: createCustomer_def split: prod.splits sum.splits dest: mutation_trace)

lemma js_or_null: "js_or v JNull = JNull \<or> truthy (js_or v JNull)"
  by (simp add: js_or_def)

lemma js_or_idem: "js_or (js_or v JNull) JNull = js_or v JNull"
  by (simp add: js_or_def)

lemma createInvoice_viewUrl:
  "createInvoice B env w b c cur k ct tr = (Inr (i, v), tr') \<Longrightarrow> js_or v JNull = v"
  by (auto simp: createInvoice_def js_or_idem split: prod.splits sum.splits member.splits if_splits)

lemma sendInvoice_url:
  "sendInvoice B env w i tr = (Inr u, tr') \<Longrightarrow> js_or u JNull = u"
  by (auto simp: sendInvoice_def js_or_idem split: prod.splits sum.splits)

lemma approve_and_send_result:
  assumes "env_or_empty env (str ''WAVE_API_KEY'') \<noteq> []" "js_or v JNull = v"
    and "approveInvoice B env w i tr = (a, tr1)"
  shows "approve_and_send B env w i v tr
     = (best_url (fst (sendInvoice B env w i tr1)) v, tr @ [InvoiceApprove i, InvoiceSend i])"
proof -
  from approveInvoice_trace [OF assms(3)] assms(1) have t1: "tr1 = tr @ [InvoiceApprove i]"
    by simp
  obtain s tr2 where s: "sendInvoice B env w i tr1 = (s, tr2)"
    by (cases "sendInvoice B env w i tr1")
  from sendInvoice_trace [OF s] assms(1) t1 have t2: "tr2 = tr @ [InvoiceApprove i, InvoiceSend i]"
    by simp
  from assms(2,3) s t2 show ?thesis
    by (auto simp: approve_and_send_def best_url_def split: sum.splits)
qed

text \<open>
  C3. When customer creation and invoice creation succeed and the approval step fails,
  the handler still issues the send call, right after the approval call, and answers 200
  in mode live with the invoice identifier and the best available URL: the URL of the
  send result if sending succeeds and returns one, otherwise the view URL of the
  created invoice, which is \<^verbatim>\<open>null\<close> when the service gave none.
\<close>

theorem C3_approval_failure_not_fatal:
  assumes "req_method req = str ''POST''" "\<not> missing_fields req" "configured env"
    and "customer_step B env w req = (Inr cid, tr1)"
    and "invoice_step B env w req cid tr1 = (Inr (iid, viewUrl), tr2)"
    and "approveInvoice B env w iid tr2 = (Inl e, tr3)"
  shows "invoice_handler B env w req
           = (live_response iid (best_url (fst (sendInvoice B env w iid tr3)) viewUrl),
              tr2 @ [InvoiceApprove iid, InvoiceSend iid])
       \<and> statusCode (fst (invoice_handler B env w req)) = 200
       \<and> mode (fst (invoice_handler B env w req)) = JStr (str ''live'')
       \<and> (viewUrl = JNull \<or> truthy viewUrl)"
proof -
  from assms(3) have k: "env_or_empty env (str ''WAVE_API_KEY'') \<noteq> []"
    by (simp add: configured_def)
  from assms(5) have v: "js_or viewUrl JNull = viewUrl"
    by (auto simp: invoice_step_def dest: createInvoice_viewUrl)
  let ?u = "best_url (fst (sendInvoice B env w iid tr3)) viewUrl"
  have u: "js_or ?u JNull = ?u"
  proof (cases "sendInvoice B env w iid tr3")
    case (Pair s t)
    then show ?thesis using v
      by (cases s) (auto simp: best_url_def js_or_def)
  qed
  from approve_and_send_result [OF k v assms(6)] assms(4,5) u
  have "invoice_steps B env w req = (Inr (iid, ?u), tr2 @ [InvoiceApprove iid, InvoiceSend iid])"
    by (simp add: invoice_steps_def)
  from invoice_handler_live [OF assms(1-3) this] js_or_null [of viewUrl] v show ?thesis
    by (auto simp: live_fields)
qed


lemmas run_defs =
  customer_step_def invoice_step_def createCustomer_def createInvoice_def approveInvoice_def
  sendInvoice_def mutation_def waveQuery_def wave_response_def mutation_failed_def
  failure_error_def firstErr_def js_or_def configured_env_def env_or_empty_def
  invoice_request_def contractData_def invoice_def currency_def
  approval_fails_service_def rejecting_service_def succeeded_def rejected_def ok_data_def
  input_errors_def literal_lookup_def PACKAGE_CATALOG_def object_prototype_members_def
  resolve_productId_def productIdMap_def example_runtime_def

lemma example_customer_step:
  "customer_step example_runtime configured_env approval_fails_service (invoice_request key)
     = (Inr (JStr (str ''cus_1'')), [CustomerCreate (str ''biz'') (JStr (str ''Ada'')) (JStr (str ''ada@example.org''))])"
  by (simp add: run_defs)


lemma growth_deposit: "deposit (Own \<lparr>pkg_name = str ''Growth Accelerator Package'', pkg_price = 7500\<rparr>) = Fin 3750"
  by (simp add: deposit_def deposit_of_price_def Math_round_def floor_eq_iff)

lemma text_3750: "number_text (Fin 3750) = str ''3750''"
  by (simp add: number_text_def str_def)

lemma example_invoice_step:
  "invoice_step example_runtime configured_env approval_fails_service (invoice_request (str ''growth''))
     (JStr (str ''cus_1'')) tr
     = (Inr (JStr (str ''inv_1''), JStr (str ''https://wave.example/view/inv_1'')),
        tr @ [InvoiceCreate (str ''biz'') (JStr (str ''cus_1'')) (str ''USD'') (str ''C-1'') (ProductId (str ''prod'')) (str ''3750'')])"
  by (simp add: run_defs growth_deposit text_3750)

lemma example_approve:
  "approveInvoice example_runtime configured_env approval_fails_service (JStr (str ''inv_1'')) tr
     = (Inl (JsError (str ''Approve invoice failed: Cannot approve'') JUndefined),
        tr @ [InvoiceApprove (JStr (str ''inv_1''))])"
  by (simp add: run_defs)

lemma example_send:
  "sendInvoice example_runtime configured_env approval_fails_service (JStr (str ''inv_1'')) tr
     = (Inr (JStr (str ''https://wave.example/pay/inv_1'')), tr @ [InvoiceSend (JStr (str ''inv_1''))])"
  by (simp add: run_defs)

text \<open>
  A run for the growth package in which the approval is rejected: four calls, and the
  live answer carries the URL of the send result.
\<close>

theorem C3_approval_failure_not_fatal_witness:
  "invoice_handler example_runtime configured_env approval_fails_service (invoice_request (str ''growth''))
     = (live_response (JStr (str ''inv_1'')) (JStr (str ''https://wave.example/pay/inv_1'')),
        [CustomerCreate (str ''biz'') (JStr (str ''Ada'')) (JStr (str ''ada@example.org'')),
         InvoiceCreate (str ''biz'') (JStr (str ''cus_1'')) (str ''USD'') (str ''C-1'') (ProductId (str ''prod'')) (str ''3750''),
         InvoiceApprove (JStr (str ''inv_1'')), InvoiceSend (JStr (str ''inv_1''))])"
proof -
  have k: "str ''growth'' \<noteq> []" by simp
  from C3_approval_failure_not_fatal [OF example_request_ok(1) example_request_ok(2) [OF k]
      example_envs(1) example_customer_step example_invoice_step example_approve]
  show ?thesis
    by (simp add: example_send best_url_def)
qed


subsection \<open>Where the package key is validated\<close>

lemma createInvoice_unknown_key:
  "ToString B k = Inr key \<Longrightarrow> literal_lookup PACKAGE_CATALOG key = Missing \<Longrightarrow>
   createInvoice B env w b c cur k ct tr = (Inl (JsError (str ''Unknown package key'') JUndefined), tr)"
  by (simp add: createInvoice_def)

lemma createInvoice_no_key_text:
  "ToString B k = Inl e \<Longrightarrow> createInvoice B env w b c cur k ct tr = (Inl e, tr)"
  by (simp add: createInvoice_def)

lemma createInvoice_extends:
  "createInvoice B env w b c cur k ct tr = (r, tr') \<Longrightarrow> \<exists>xs. tr' = tr @ xs"
  by (auto simp: createInvoice_def split: sum.splits member.splits if_splits prod.splits
      dest!: mutation_trace)

lemma approve_and_send_extends:
  "approve_and_send B env w i v tr = (u, tr') \<Longrightarrow> \<exists>xs. tr' = tr @ xs"
  by (auto simp: approve_and_send_def split: sum.splits prod.splits if_splits
      dest!: approveInvoice_trace sendInvoice_trace)

lemma invoice_steps_extends:
  "customer_step B env w req = (r, tr) \<Longrightarrow> \<exists>xs. snd (invoice_steps B env w req) = tr @ xs"
  by (auto simp: invoice_steps_def invoice_step_def split: sum.splits prod.splits
      dest!: createInvoice_extends approve_and_send_extends)

lemma invoice_handler_trace:
  "req_method req = str ''POST'' \<Longrightarrow> \<not> missing_fields req \<Longrightarrow> configured env \<Longrightarrow>
   snd (invoice_handler B env w req) = snd (invoice_steps B env w req)"
  by (simp add: invoice_handler_def split: prod.splits sum.splits)

text \<open>
  C5, amended. The package key is validated inside invoice creation, after the
  customer-creation call: for every well-formed request in a configured environment
  the customer-creation call is issued first. When the package key converts to a text
  that is neither a key of the catalog nor the name of a member inherited from
  \<^verbatim>\<open>Object.prototype\<close>, it is the only call: if it succeeds the handler answers in
  mode fallback with the message \<^verbatim>\<open>Unknown package key\<close>, without an
  invoice-creation call; if it fails, the handler answers in mode fallback with the
  error of customer creation. When the package key has no conversion to a text, the
  customer-creation call is again the only call, and the handler answers in mode
  fallback with the error of customer creation or else with the error of the conversion.
\<close>

theorem C5_package_key_checked_after_customer_creation:
  assumes "req_method req = str ''POST''" "\<not> missing_fields req" "configured env"
  shows "(\<exists>rest. snd (invoice_handler B env w req)
            = CustomerCreate (env_or_empty env (str ''WAVE_BUSINESS_ID''))
                (read_prop (contractData req) (str ''clientName''))
                (read_prop (contractData req) (str ''clientEmail'')) # rest)
       \<and> (ToString B (read_prop (invoice req) (str ''packageKey'')) = Inr key
            \<and> literal_lookup PACKAGE_CATALOG key = Missing \<longrightarrow>
          snd (invoice_handler B env w req)
            = [CustomerCreate (env_or_empty env (str ''WAVE_BUSINESS_ID''))
                 (read_prop (contractData req) (str ''clientName''))
                 (read_prop (contractData req) (str ''clientEmail''))]
          \<and> fst (invoice_handler B env w req)
              = fallback_response
                  (case fst (customer_step B env w req) of
                     Inl e' \<Rightarrow> e'
                   | Inr customerId \<Rightarrow> JsError (str ''Unknown package key'') JUndefined))
       \<and> (ToString B (read_prop (invoice req) (str ''packageKey'')) = Inl e \<longrightarrow>
          snd (invoice_handler B env w req)
            = [CustomerCreate (env_or_empty env (str ''WAVE_BUSINESS_ID''))
                 (read_prop (contractData req) (str ''clientName''))
                 (read_prop (contractData req) (str ''clientEmail''))]
          \<and> fst (invoice_handler B env w req)
              = fallback_response
                  (case fst (customer_step B env w req) of
                     Inl e' \<Rightarrow> e'
                   | Inr customerId \<Rightarrow> e))"
proof -
  let ?cc = "CustomerCreate (env_or_empty env (str ''WAVE_BUSINESS_ID''))
                (read_prop (contractData req) (str ''clientName''))
                (read_prop (contractData req) (str ''clientEmail''))"
  from assms(3) have k: "env_or_empty env (str ''WAVE_API_KEY'') \<noteq> []"
    by (simp add: configured_def)
  obtain r tr where c: "customer_step B env w req = (r, tr)"
    by (cases "customer_step B env w req")
  with k have tr: "tr = [?cc]"
    by (auto simp: customer_step_def dest: createCustomer_trace)
  from invoice_steps_extends [OF c] invoice_handler_trace [OF assms] tr
  have first: "\<exists>rest. snd (invoice_handler B env w req) = ?cc # rest"
    by auto
  have stop: "snd (invoice_handler B env w req) = [?cc]
      \<and> fst (invoice_handler B env w req)
          = fallback_response (case fst (customer_step B env w req) of
                                 Inl e' \<Rightarrow> e' | Inr customerId \<Rightarrow> x)"
    if i: "\<And>cid. invoice_step B env w req cid tr = (Inl x, tr)" for x
  proof (cases r)
    case (Inl e')
    with c have "invoice_steps B env w req = (Inl e', tr)"
      by (simp add: invoice_steps_def)
    from invoice_handler_fallback [OF assms this] c Inl tr show ?thesis
      by simp
  next
    case (Inr cid)
    with c i have "invoice_steps B env w req = (Inl x, tr)"
      by (simp add: invoice_steps_def)
    from invoice_handler_fallback [OF assms this] c Inr tr show ?thesis
      by simp
  qed
  have unknown: "ToString B (read_prop (invoice req) (str ''packageKey'')) = Inr key
            \<and> literal_lookup PACKAGE_CATALOG key = Missing \<longrightarrow>
          snd (invoice_handler B env w req) = [?cc]
          \<and> fst (invoice_handler B env w req)
              = fallback_response
                  (case fst (customer_step B env w req) of
                     Inl e' \<Rightarrow> e'
                   | Inr customerId \<Rightarrow> JsError (str ''Unknown package key'') JUndefined)"
    by (intro impI stop) (simp add: invoice_step_def createInvoice_unknown_key)
  have no_text: "ToString B (read_prop (invoice req) (str ''packageKey'')) = Inl e \<longrightarrow>
          snd (invoice_handler B env w req) = [?cc]
          \<and> fst (invoice_handler B env w req)
              = fallback_response
                  (case fst (customer_step B env w req) of
                     Inl e' \<Rightarrow> e'
                   | Inr customerId \<Rightarrow> e)"
    by (intro impI stop) (simp add: invoice_step_def createInvoice_no_key_text)
  from first unknown no_text show ?thesis
    by (intro conjI)
qed

lemma bogus_missing: "literal_lookup PACKAGE_CATALOG (str ''bogus'') = Missing"
  by (simp add: literal_lookup_def PACKAGE_CATALOG_def object_prototype_members_def)

lemma bogus_key_text:
  "ToString example_runtime (read_prop (invoice (invoice_request (str ''bogus''))) (str ''packageKey''))
     = Inr (str ''bogus'')"
  by (simp add: invoice_request_def invoice_def js_or_def)

text \<open>
  C5 as stated fails: for the key \<^verbatim>\<open>bogus\<close>, which is not in the catalog, the
  customer-creation call has been issued when the handler reports the unknown key.
\<close>

theorem C5_customer_created_first_counterexample:
  "map_of PACKAGE_CATALOG (str ''bogus'') = None
   \<and> invoice_handler example_runtime configured_env approval_fails_service
        (invoice_request (str ''bogus''))
      = (fallback_response (JsError (str ''Unknown package key'') JUndefined),
         [CustomerCreate (str ''biz'') (JStr (str ''Ada'')) (JStr (str ''ada@example.org''))])"
proof -
  have "invoice_step example_runtime configured_env approval_fails_service
          (invoice_request (str ''bogus'')) (JStr (str ''cus_1''))
          [CustomerCreate (str ''biz'') (JStr (str ''Ada'')) (JStr (str ''ada@example.org''))]
        = (Inl (JsError (str ''Unknown package key'') JUndefined),
           [CustomerCreate (str ''biz'') (JStr (str ''Ada'')) (JStr (str ''ada@example.org''))])"
    unfolding invoice_step_def
    by (rule createInvoice_unknown_key [OF bogus_key_text bogus_missing])
  then have "invoice_steps example_runtime configured_env approval_fails_service
          (invoice_request (str ''bogus''))
        = (Inl (JsError (str ''Unknown package key'') JUndefined),
           [CustomerCreate (str ''biz'') (JStr (str ''Ada'')) (JStr (str ''ada@example.org''))])"
    by (simp add: invoice_steps_def example_customer_step)
  then show ?thesis
    by (simp add: invoice_handler_def example_request_ok example_envs PACKAGE_CATALOG_def)
qed

lemma object_key_request_ok:
  "req_method object_key_request = str ''POST''" "\<not> missing_fields object_key_request"
  by (simp_all add: object_key_request_def missing_fields_def contractData_def invoice_def
      js_or_def)

lemma object_key_no_text:
  "ToString example_runtime (read_prop (invoice object_key_request) (str ''packageKey''))
     = Inl (JsError (str ''Cannot convert object to primitive value'') JUndefined)"
  by (simp add: object_key_request_def invoice_def js_or_def example_runtime_def)

lemma object_key_customer_step:
  "customer_step example_runtime configured_env approval_fails_service object_key_request
     = (Inr (JStr (str ''cus_1'')),
        [CustomerCreate (str ''biz'') (JStr (str ''Ada'')) (JStr (str ''ada@example.org''))])"
  by (simp add: customer_step_def createCustomer_def mutation_def waveQuery_def
      wave_response_def mutation_failed_def js_or_def configured_env_def env_or_empty_def
      object_key_request_def contractData_def approval_fails_service_def succeeded_def
      ok_data_def)

text \<open>
  The amended statement on two runs against a service that creates the customer: the
  key \<^verbatim>\<open>bogus\<close>, and a key that is an object with an own \<^verbatim>\<open>toString\<close>
  property.
\<close>

theorem C5_package_key_checked_after_customer_creation_witness:
  "invoice_handler example_runtime configured_env approval_fails_service
     (invoice_request (str ''bogus''))
     = (fallback_response (JsError (str ''Unknown package key'') JUndefined),
        [CustomerCreate (str ''biz'') (JStr (str ''Ada'')) (JStr (str ''ada@example.org''))])
   \<and> invoice_handler example_runtime configured_env approval_fails_service object_key_request
     = (fallback_response (JsError (str ''Cannot convert object to primitive value'') JUndefined),
        [CustomerCreate (str ''biz'') (JStr (str ''Ada'')) (JStr (str ''ada@example.org''))])"
proof -
  have k: "str ''bogus'' \<noteq> []" by simp
  have b: "env_or_empty configured_env (str ''WAVE_BUSINESS_ID'') = str ''biz''"
    by (simp add: configured_env_def env_or_empty_def)
  have n: "read_prop (contractData (invoice_request (str ''bogus''))) (str ''clientName'')
      = JStr (str ''Ada'')"
    "read_prop (contractData (invoice_request (str ''bogus''))) (str ''clientEmail'')
      = JStr (str ''ada@example.org'')"
    "read_prop (contractData object_key_request) (str ''clientName'') = JStr (str ''Ada'')"
    "read_prop (contractData object_key_request) (str ''clientEmail'')
      = JStr (str ''ada@example.org'')"
    by (simp_all add: invoice_request_def object_key_request_def contractData_def js_or_def)
  from C5_package_key_checked_after_customer_creation [OF example_request_ok(1)
      example_request_ok(2) [OF k] example_envs(1),
      of example_runtime approval_fails_service "str ''bogus''"]
    bogus_key_text bogus_missing
  have 1: "invoice_handler example_runtime configured_env approval_fails_service
     (invoice_request (str ''bogus''))
     = (fallback_response (JsError (str ''Unknown package key'') JUndefined),
        [CustomerCreate (str ''biz'') (JStr (str ''Ada'')) (JStr (str ''ada@example.org''))])"
    by (simp add: example_customer_step b n prod_eq_iff)
  from C5_package_key_checked_after_customer_creation [OF object_key_request_ok
      example_envs(1), of example_runtime approval_fails_service _
      "JsError (str ''Cannot convert object to primitive value'') JUndefined"]
    object_key_no_text
  have 2: "invoice_handler example_runtime configured_env approval_fails_service
     object_key_request
     = (fallback_response (JsError (str ''Cannot convert object to primitive value'') JUndefined),
        [CustomerCreate (str ''biz'') (JStr (str ''Ada'')) (JStr (str ''ada@example.org''))])"
    by (simp add: object_key_customer_step b n prod_eq_iff)
  from 1 2 show ?thesis
    by (intro conjI)
qed

subsection \<open>Field-level errors of a rejected mutation\<close>

text \<open>
  C6. When customer creation is rejected with two input errors, the handler answers in
  mode fallback with the message of the first error and with \<^verbatim>\<open>errorDetails\<close> equal
  to \<^verbatim>\<open>null\<close>: the list of input errors is not carried into the answer.
\<close>

theorem C6_input_errors_dropped:
  "invoice_handler example_runtime configured_env rejecting_service (invoice_request (str ''growth''))
     = (fallback_response (JsError (str ''Create customer failed: Email is invalid'') JUndefined),
        [CustomerCreate (str ''biz'') (JStr (str ''Ada'')) (JStr (str ''ada@example.org''))])
   \<and> read_prop (payload (fst (invoice_handler example_runtime configured_env rejecting_service
         (invoice_request (str ''growth''))))) (str ''errorDetails'') = JNull
   \<and> read_prop (payload (fst (invoice_handler example_runtime configured_env rejecting_service
         (invoice_request (str ''growth''))))) (str ''error'')
       = JStr (str ''Create customer failed: Email is invalid'')"
proof -
  have "customer_step example_runtime configured_env rejecting_service (invoice_request (str ''growth''))
     = (Inl (JsError (str ''Create customer failed: Email is invalid'') JUndefined),
        [CustomerCreate (str ''biz'') (JStr (str ''Ada'')) (JStr (str ''ada@example.org''))])"
    by (simp add: run_defs)
  then have "invoice_steps example_runtime configured_env rejecting_service
      (invoice_request (str ''growth''))
     = (Inl (JsError (str ''Create customer failed: Email is invalid'') JUndefined),
        [CustomerCreate (str ''biz'') (JStr (str ''Ada'')) (JStr (str ''ada@example.org''))])"
    by (simp add: invoice_steps_def)
  then show ?thesis
    by (simp add: invoice_handler_def example_request_ok example_envs fallback_fields js_or_def)
qed

subsection \<open>The storage path of an uploaded contract\<close>

lemma allowed_char_iff:
  "allowed_char u \<longleftrightarrow>
   u \<in> set (str ''abcdefghijklmnopqrstuvwxyzABCDEFGHIJKLMNOPQRSTUVWXYZ0123456789._-'')"
proof
  assume "allowed_char u"
  then have "(97 \<le> u \<and> u \<le> 122) \<or> (65 \<le> u \<and> u \<le> 90) \<or> (48 \<le> u \<and> u \<le> 57)
      \<or> u = 46 \<or> u = 95 \<or> u = 45"
    by (simp add: allowed_char_def)
  then show "u \<in> set (str ''abcdefghijklmnopqrstuvwxyzABCDEFGHIJKLMNOPQRSTUVWXYZ0123456789._-'')"
    unfolding str_def by simp arith
next
  assume "u \<in> set (str ''abcdefghijklmnopqrstuvwxyzABCDEFGHIJKLMNOPQRSTUVWXYZ0123456789._-'')"
  then show "allowed_char u"
    unfolding str_def allowed_char_def by auto
qed

lemma sanitize_alphabet:
  "sanitize name
     = map (\<lambda>u. if u \<in> set (str ''abcdefghijklmnopqrstuvwxyzABCDEFGHIJKLMNOPQRSTUVWXYZ0123456789._-'')
                then u else 95) name"
  by (simp add: sanitize_def allowed_char_iff)

lemma underscore_unit: "str ''_'' = [95]"
  by (simp add: str_def)

lemma sanitize_example: "sanitize (str ''My Contract (1).pdf'') = str ''My_Contract__1_.pdf''"
  by (simp add: sanitize_def allowed_char_def str_def)

lemma sanitize_length: "length (sanitize name) = length name"
  by (simp add: sanitize_def)

lemma sanitize_allowed:
  "u \<in> set (sanitize name) \<Longrightarrow>
   u \<in> set (str ''abcdefghijklmnopqrstuvwxyzABCDEFGHIJKLMNOPQRSTUVWXYZ0123456789._-'')"
proof -
  assume "u \<in> set (sanitize name)"
  then have "allowed_char u"
    by (auto simp: sanitize_def allowed_char_def)
  then show ?thesis
    by (simp add: allowed_char_iff)
qed

lemma sanitize_nth:
  "i < length name \<Longrightarrow>
   sanitize name ! i
     = (if name ! i \<in> set (str ''abcdefghijklmnopqrstuvwxyzABCDEFGHIJKLMNOPQRSTUVWXYZ0123456789._-'')
        then name ! i else 95)"
  by (simp add: sanitize_def allowed_char_iff)

lemma putFileToGitHub_path:
  "env_or_empty env (str ''GITHUB_TOKEN'') \<noteq> [] \<Longrightarrow> env_or_empty env (str ''GITHUB_REPO'') \<noteq> [] \<Longrightarrow>
   map gh_path (snd (putFileToGitHub B env gw path content msg)) = [path]"
  by (simp add: putFileToGitHub_def Let_def)

lemma upload_contract_path:
  assumes "req_method req = str ''POST''"
    and "read_prop (js_or (req_body req) (JObj [])) (str ''filename'') = JStr name" "name \<noteq> []"
    and "truthy (read_prop (js_or (req_body req) (JObj [])) (str ''content''))"
    and "commit_message B (read_prop (js_or (req_body req) (JObj [])) (str ''contractData'')) = Inr msg"
    and "env_or_empty env (str ''GITHUB_TOKEN'') \<noteq> []" "env_or_empty env (str ''GITHUB_REPO'') \<noteq> []"
  shows "map gh_path (snd (upload_contract B env gw req)) = [str ''contracts/'' @ sanitize name]"
proof -
  let ?p = "putFileToGitHub B env gw (str ''contracts/'' @ sanitize name)
              (read_prop (js_or (req_body req) (JObj [])) (str ''content'')) msg"
  from assms(1-5) have "snd (upload_contract B env gw req) = snd ?p"
    by (cases ?p) (auto simp: upload_contract_def Let_def split: sum.splits prod.splits)
  with putFileToGitHub_path [OF assms(6,7)] show ?thesis
    by simp
qed

lemma putFileToGitHub_calls:
  "putFileToGitHub B env gw path content msg = (r, tr) \<Longrightarrow> c \<in> set tr \<Longrightarrow> gh_path c = path"
  by (auto simp: putFileToGitHub_def Let_def split: if_splits)

lemma upload_contract_calls:
  assumes "read_prop (js_or (req_body req) (JObj [])) (str ''filename'') = JStr name"
    and "c \<in> set (snd (upload_contract B env gw req))"
  shows "gh_path c = str ''contracts/'' @ sanitize name"
  using assms
  by (auto simp: upload_contract_def Let_def split: if_splits sum.splits prod.splits
      dest: putFileToGitHub_calls)

text \<open>
  C8. For every filename, the sanitized name is the filename with each code unit that
  is not one of the ASCII letters, the digits, dot, underscore and hyphen replaced, in
  place, by the underscore (code unit 95), so that it has the length of the filename
  and consists of letters, digits, dots, underscores and hyphens only;
  \<^verbatim>\<open>My Contract (1).pdf\<close> becomes \<^verbatim>\<open>My_Contract__1_.pdf\<close>. Every call the upload
  handler issues for a request with this filename stores the file at the path
  \<^verbatim>\<open>contracts/\<close> followed by the sanitized name, and a well-formed request in a
  configured environment issues exactly one such call.
\<close>

theorem C8_filename_sanitized:
  "sanitize name
     = map (\<lambda>u. if u \<in> set (str ''abcdefghijklmnopqrstuvwxyzABCDEFGHIJKLMNOPQRSTUVWXYZ0123456789._-'')
                then u else 95) name
   \<and> str ''_'' = [95]
   \<and> length (sanitize name) = length name
   \<and> (\<forall>i<length name.
         sanitize name ! i
           = (if name ! i \<in> set (str ''abcdefghijklmnopqrstuvwxyzABCDEFGHIJKLMNOPQRSTUVWXYZ0123456789._-'')
              then name ! i else 95))
   \<and> (\<forall>u\<in>set (sanitize name).
         u \<in> set (str ''abcdefghijklmnopqrstuvwxyzABCDEFGHIJKLMNOPQRSTUVWXYZ0123456789._-''))
   \<and> sanitize (str ''My Contract (1).pdf'') = str ''My_Contract__1_.pdf''
   \<and> (read_prop (js_or (req_body req) (JObj [])) (str ''filename'') = JStr name \<longrightarrow>
        (\<forall>c\<in>set (snd (upload_contract B env gw req)).
           gh_path c = str ''contracts/'' @ sanitize name))
   \<and> (req_method req = str ''POST''
        \<and> read_prop (js_or (req_body req) (JObj [])) (str ''filename'') = JStr name \<and> name \<noteq> []
        \<and> truthy (read_prop (js_or (req_body req) (JObj [])) (str ''content''))
        \<and> commit_message B (read_prop (js_or (req_body req) (JObj [])) (str ''contractData'')) = Inr msg
        \<and> env_or_empty env (str ''GITHUB_TOKEN'') \<noteq> [] \<and> env_or_empty env (str ''GITHUB_REPO'') \<noteq> [] \<longrightarrow>
        map gh_path (snd (upload_contract B env gw req)) = [str ''contracts/'' @ sanitize name])"
proof (intro conjI allI impI ballI)
  show "sanitize name
     = map (\<lambda>u. if u \<in> set (str ''abcdefghijklmnopqrstuvwxyzABCDEFGHIJKLMNOPQRSTUVWXYZ0123456789._-'')
                then u else 95) name"
    by (rule sanitize_alphabet)
  show "str ''_'' = [95]"
    by (rule underscore_unit)
  show "length (sanitize name) = length name"
    by (rule sanitize_length)
  show "sanitize (str ''My Contract (1).pdf'') = str ''My_Contract__1_.pdf''"
    by (rule sanitize_example)
next
  fix i assume "i < length name"
  then show "sanitize name ! i
           = (if name ! i \<in> set (str ''abcdefghijklmnopqrstuvwxyzABCDEFGHIJKLMNOPQRSTUVWXYZ0123456789._-'')
              then name ! i else 95)"
    by (rule sanitize_nth)
next
  fix u assume "u \<in> set (sanitize name)"
  then show "u \<in> set (str ''abcdefghijklmnopqrstuvwxyzABCDEFGHIJKLMNOPQRSTUVWXYZ0123456789._-'')"
    by (rule sanitize_allowed)
next
  fix c
  assume "read_prop (js_or (req_body req) (JObj [])) (str ''filename'') = JStr name"
    and "c \<in> set (snd (upload_contract B env gw req))"
  then show "gh_path c = str ''contracts/'' @ sanitize name"
    by (rule upload_contract_calls)
next
  assume "req_method req = str ''POST''
        \<and> read_prop (js_or (req_body req) (JObj [])) (str ''filename'') = JStr name \<and> name \<noteq> []
        \<and> truthy (read_prop (js_or (req_body req) (JObj [])) (str ''content''))
        \<and> commit_message B (read_prop (js_or (req_body req) (JObj [])) (str ''contractData'')) = Inr msg
        \<and> env_or_empty env (str ''GITHUB_TOKEN'') \<noteq> [] \<and> env_or_empty env (str ''GITHUB_REPO'') \<noteq> []"
  then show "map gh_path (snd (upload_contract B env gw req)) = [str ''contracts/'' @ sanitize name]"
    using upload_contract_path [of req name B msg env gw] by blast
qed

text \<open>
  The upload of \<^verbatim>\<open>My Contract (1).pdf\<close>, and a filename with a slash, a colon, two
  dots and a code unit outside ASCII.
\<close>

theorem C8_filename_sanitized_witness:
  "sanitize (str ''My Contract (1).pdf'') = str ''My_Contract__1_.pdf''
   \<and> map gh_path (snd (upload_contract example_runtime github_env github_created
        (upload_request (str ''My Contract (1).pdf'')))) = [str ''contracts/My_Contract__1_.pdf'']
   \<and> list_all (\<lambda>u. u \<in> set (str ''abcdefghijklmnopqrstuvwxyzABCDEFGHIJKLMNOPQRSTUVWXYZ0123456789._-''))
        (sanitize (str ''My Contract (1).pdf''))
   \<and> sanitize (str ''../a:b'' @ [233]) = str ''.._a_b_''"
proof -
  have h: "req_method (upload_request (str ''My Contract (1).pdf'')) = str ''POST''"
    "read_prop (js_or (req_body (upload_request (str ''My Contract (1).pdf''))) (JObj []))
       (str ''filename'') = JStr (str ''My Contract (1).pdf'')"
    "truthy (read_prop (js_or (req_body (upload_request (str ''My Contract (1).pdf''))) (JObj []))
       (str ''content''))"
    by (simp_all add: upload_request_def js_or_def)
  have m: "commit_message example_runtime
       (read_prop (js_or (req_body (upload_request (str ''My Contract (1).pdf''))) (JObj []))
          (str ''contractData''))
     = Inr (str ''chore(contracts): add signed contract'')"
    by (simp add: upload_request_def js_or_def commit_message_def js_trim_def js_space_def str_def)
  have e: "env_or_empty github_env (str ''GITHUB_TOKEN'') \<noteq> []"
    "env_or_empty github_env (str ''GITHUB_REPO'') \<noteq> []"
    by (simp_all add: github_env_def env_or_empty_def)
  have x: "map (\<lambda>u. if u \<in> set (str ''abcdefghijklmnopqrstuvwxyzABCDEFGHIJKLMNOPQRSTUVWXYZ0123456789._-'')
                then u else 95) (str ''../a:b'' @ [233]) = str ''.._a_b_''"
    by (simp add: str_def)
  note t = C8_filename_sanitized [of "str ''My Contract (1).pdf''"
      "upload_request (str ''My Contract (1).pdf'')" example_runtime github_env github_created
      "str ''chore(contracts): add signed contract''"]
  note t' = C8_filename_sanitized [of "str ''../a:b'' @ [233]"]
  from t have 1: "sanitize (str ''My Contract (1).pdf'') = str ''My_Contract__1_.pdf''"
    by (elim conjE)
  from t have "req_method (upload_request (str ''My Contract (1).pdf'')) = str ''POST''
        \<and> read_prop (js_or (req_body (upload_request (str ''My Contract (1).pdf''))) (JObj []))
            (str ''filename'') = JStr (str ''My Contract (1).pdf'')
        \<and> str ''My Contract (1).pdf'' \<noteq> []
        \<and> truthy (read_prop (js_or (req_body (upload_request (str ''My Contract (1).pdf'')))
            (JObj [])) (str ''content''))
        \<and> commit_message example_runtime
            (read_prop (js_or (req_body (upload_request (str ''My Contract (1).pdf''))) (JObj []))
               (str ''contractData'')) = Inr (str ''chore(contracts): add signed contract'')
        \<and> env_or_empty github_env (str ''GITHUB_TOKEN'') \<noteq> []
        \<and> env_or_empty github_env (str ''GITHUB_REPO'') \<noteq> [] \<longrightarrow>
        map gh_path (snd (upload_contract example_runtime github_env github_created
          (upload_request (str ''My Contract (1).pdf''))))
        = [str ''contracts/'' @ sanitize (str ''My Contract (1).pdf'')]"
    by (elim conjE)
  with h m e 1 have 2: "map gh_path (snd (upload_contract example_runtime github_env github_created
        (upload_request (str ''My Contract (1).pdf'')))) = [str ''contracts/My_Contract__1_.pdf'']"
    by simp
  from t have "\<forall>u\<in>set (sanitize (str ''My Contract (1).pdf'')).
         u \<in> set (str ''abcdefghijklmnopqrstuvwxyzABCDEFGHIJKLMNOPQRSTUVWXYZ0123456789._-'')"
    by (elim conjE)
  then have 3: "list_all (\<lambda>u. u \<in> set (str ''abcdefghijklmnopqrstuvwxyzABCDEFGHIJKLMNOPQRSTUVWXYZ0123456789._-''))
        (sanitize (str ''My Contract (1).pdf''))"
    by (simp only: list_all_iff)
  from t' [THEN conjunct1] x have 4: "sanitize (str ''../a:b'' @ [233]) = str ''.._a_b_''"
    by (simp only:)
  from 1 2 3 4 show ?thesis
    by (intro conjI)
qed

subsection \<open>How the listing and discovery handlers report failure\<close>

lemma error_response_fields:
  "statusCode (error_response e) = 200"
  "read_prop (payload (error_response e)) (str ''error'')
     = JStr (if message e \<noteq> [] then message e else str ''Unknown error'')"
  by (simp_all add: error_response_def json_def)

lemma list_accounts_status: "statusCode (fst (list_accounts B env w req)) = 200"
  by (simp add: list_accounts_def statusCode_json error_response_fields
      split: prod.splits sum.splits)

lemma list_products_status: "statusCode (fst (list_products B env w req)) = 200"
  by (simp add: list_products_def statusCode_json error_response_fields
      split: prod.splits sum.splits)

lemma list_accounts_unconfigured:
  "env_or_empty env (str ''WAVE_BUSINESS_ID'') = [] \<Longrightarrow>
   list_accounts B env w req = (json 200 (JObj [(str ''error'', JStr (str ''Missing WAVE_BUSINESS_ID''))]), [])"
  by (simp add: list_accounts_def)

lemma list_products_unconfigured:
  "env_or_empty env (str ''WAVE_BUSINESS_ID'') = [] \<Longrightarrow>
   list_products B env w req = (json 200 (JObj [(str ''error'', JStr (str ''Missing WAVE_BUSINESS_ID''))]), [])"
  by (simp add: list_products_def)

lemma list_accounts_failed:
  "env_or_empty env (str ''WAVE_BUSINESS_ID'') \<noteq> [] \<Longrightarrow>
   listing_failure
     (waveQuery_plain B env w (AccountsQuery (env_or_empty env (str ''WAVE_BUSINESS_ID''))) [])
     (accounts_body B) = Some e \<Longrightarrow>
   fst (list_accounts B env w req) = error_response e"
  by (auto simp: list_accounts_def listing_failure_def split: prod.splits sum.splits)

lemma list_products_failed:
  "env_or_empty env (str ''WAVE_BUSINESS_ID'') \<noteq> [] \<Longrightarrow>
   listing_failure
     (waveQuery_plain B env w (ProductsQuery (env_or_empty env (str ''WAVE_BUSINESS_ID''))) [])
     (products_body B req) = Some e \<Longrightarrow>
   fst (list_products B env w req) = error_response e"
  by (auto simp: list_products_def listing_failure_def split: prod.splits sum.splits)

lemma business_discovery_failed:
  "getBusinesses B env w = (Inl e, tr) \<Longrightarrow>
   business_discovery B env w req = (json 500 (JObj [(str ''error'', JStr (message e))]), tr)"
  by (simp add: business_discovery_def)

lemma business_discovery_ok:
  "getBusinesses B env w = (Inr bs, tr) \<Longrightarrow>
   business_discovery B env w req = (json 200 (JObj [(str ''businesses'', JArr bs)]), tr)"
  by (simp add: business_discovery_def)

text \<open>
  C7, amended. The list-accounts and list-products handlers answer every request with
  status 200, and report every failure (a missing business identifier, a missing API
  key, a failed call, data of an unexpected shape) in an \<^verbatim>\<open>error\<close> field. The
  business discovery handler reports every failure with status 500 and an
  \<^verbatim>\<open>error\<close> field, and answers 200 exactly when it does not fail.
\<close>

theorem C7_listing_errors_are_200_discovery_500:
  "statusCode (fst (list_accounts B env w req)) = 200
   \<and> statusCode (fst (list_products B env w req)) = 200
   \<and> (env_or_empty env (str ''WAVE_BUSINESS_ID'') = [] \<longrightarrow>
        payload (fst (list_accounts B env w req)) = JObj [(str ''error'', JStr (str ''Missing WAVE_BUSINESS_ID''))]
        \<and> payload (fst (list_products B env w req))
            = JObj [(str ''error'', JStr (str ''Missing WAVE_BUSINESS_ID''))])
   \<and> (env_or_empty env (str ''WAVE_BUSINESS_ID'') \<noteq> []
        \<and> listing_failure
             (waveQuery_plain B env w (AccountsQuery (env_or_empty env (str ''WAVE_BUSINESS_ID''))) [])
             (accounts_body B) = Some e \<longrightarrow>
        payload (fst (list_accounts B env w req))
          = JObj [(str ''error'', JStr (if message e \<noteq> [] then message e else str ''Unknown error''))])
   \<and> (env_or_empty env (str ''WAVE_BUSINESS_ID'') \<noteq> []
        \<and> listing_failure
             (waveQuery_plain B env w (ProductsQuery (env_or_empty env (str ''WAVE_BUSINESS_ID''))) [])
             (products_body B req) = Some e \<longrightarrow>
        payload (fst (list_products B env w req))
          = JObj [(str ''error'', JStr (if message e \<noteq> [] then message e else str ''Unknown error''))])
   \<and> (fst (getBusinesses B env w) = Inl e \<longrightarrow>
        fst (business_discovery B env w req) = json 500 (JObj [(str ''error'', JStr (message e))]))
   \<and> (statusCode (fst (business_discovery B env w req)) = 200
        \<longleftrightarrow> \<not> isl (fst (getBusinesses B env w)))"
proof (intro conjI impI)
  show "statusCode (fst (list_accounts B env w req)) = 200"
    by (rule list_accounts_status)
  show "statusCode (fst (list_products B env w req)) = 200"
    by (rule list_products_status)
next
  assume "env_or_empty env (str ''WAVE_BUSINESS_ID'') = []"
  then show "payload (fst (list_accounts B env w req))
      = JObj [(str ''error'', JStr (str ''Missing WAVE_BUSINESS_ID''))]"
    and "payload (fst (list_products B env w req))
      = JObj [(str ''error'', JStr (str ''Missing WAVE_BUSINESS_ID''))]"
    by (simp_all add: list_accounts_unconfigured list_products_unconfigured json_def)
next
  assume "env_or_empty env (str ''WAVE_BUSINESS_ID'') \<noteq> []
    \<and> listing_failure
         (waveQuery_plain B env w (AccountsQuery (env_or_empty env (str ''WAVE_BUSINESS_ID''))) [])
         (accounts_body B) = Some e"
  then show "payload (fst (list_accounts B env w req))
      = JObj [(str ''error'', JStr (if message e \<noteq> [] then message e else str ''Unknown error''))]"
    by (simp add: list_accounts_failed error_response_def json_def)
next
  assume "env_or_empty env (str ''WAVE_BUSINESS_ID'') \<noteq> []
    \<and> listing_failure
         (waveQuery_plain B env w (ProductsQuery (env_or_empty env (str ''WAVE_BUSINESS_ID''))) [])
         (products_body B req) = Some e"
  then show "payload (fst (list_products B env w req))
      = JObj [(str ''error'', JStr (if message e \<noteq> [] then message e else str ''Unknown error''))]"
    by (simp add: list_products_failed error_response_def json_def)
next
  assume "fst (getBusinesses B env w) = Inl e"
  then show "fst (business_discovery B env w req) = json 500 (JObj [(str ''error'', JStr (message e))])"
    by (cases "getBusinesses B env w") (simp add: business_discovery_failed)
next
  show "statusCode (fst (business_discovery B env w req)) = 200
        \<longleftrightarrow> \<not> isl (fst (getBusinesses B env w))"
    by (cases "getBusinesses B env w")
      (auto simp: business_discovery_def statusCode_json split: sum.splits)
qed

text \<open>
  C7 as stated fails: business discovery answers 500 when the API key is missing and
  when the service cannot be reached.
\<close>

theorem C7_discovery_500_counterexample:
  "statusCode (fst (business_discovery example_runtime empty_env offline get_request)) = 500
   \<and> statusCode (fst (business_discovery example_runtime configured_env offline get_request)) = 500"
  by (simp add: business_discovery_def getBusinesses_def waveQuery_plain_def
      wave_response_plain_def empty_env_def configured_env_def env_or_empty_def offline_def
      statusCode_json)

text \<open>
  Three failures: list accounts without a business identifier, list products and
  business discovery with the service out of reach.
\<close>

theorem C7_listing_errors_are_200_discovery_500_witness:
  "fst (list_accounts example_runtime empty_env offline get_request)
     = json 200 (JObj [(str ''error'', JStr (str ''Missing WAVE_BUSINESS_ID''))])
   \<and> fst (list_products example_runtime configured_env offline get_request)
     = json 200 (JObj [(str ''error'', JStr (str ''fetch failed''))])
   \<and> fst (business_discovery example_runtime configured_env offline get_request)
     = json 500 (JObj [(str ''error'', JStr (str ''fetch failed''))])"
proof -
  have a: "env_or_empty empty_env (str ''WAVE_BUSINESS_ID'') = []"
    and b: "env_or_empty configured_env (str ''WAVE_BUSINESS_ID'') \<noteq> []"
    by (simp_all add: empty_env_def configured_env_def env_or_empty_def)
  have p: "listing_failure (waveQuery_plain example_runtime configured_env offline
        (ProductsQuery (env_or_empty configured_env (str ''WAVE_BUSINESS_ID''))) [])
        (products_body example_runtime get_request)
      = Some (JsError (str ''fetch failed'') JUndefined)"
    by (simp add: listing_failure_def waveQuery_plain_def wave_response_plain_def
        configured_env_def env_or_empty_def offline_def)
  have g: "fst (getBusinesses example_runtime configured_env offline)
      = Inl (JsError (str ''fetch failed'') JUndefined)"
    by (simp add: getBusinesses_def waveQuery_plain_def wave_response_plain_def
        configured_env_def env_or_empty_def offline_def)
  have s: "\<And>r d. statusCode r = 200 \<Longrightarrow> payload r = d \<Longrightarrow> r = json 200 d"
    by (simp add: json_def)
  from C7_listing_errors_are_200_discovery_500 [of example_runtime empty_env offline get_request
      "JsError (str ''fetch failed'') JUndefined"]
    C7_listing_errors_are_200_discovery_500 [of example_runtime configured_env offline get_request
      "JsError (str ''fetch failed'') JUndefined"]
    a b p g
  show ?thesis
    by (simp add: s)
qed

subsection \<open>Count and filter of the listings\<close>

lemma name_matches_eq:
  "name_matches B q p = Inr keep \<Longrightarrow> keep = sublist q (toLowerCase B (name_text p))"
  by (cases "read_prop p (str ''name'')"; cases p)
    (auto simp: name_matches_def name_text_def js_or_def
      split: sum.splits jsval.splits if_splits)

lemma filter_products_eq:
  "filter_products B q ps = Inr fs \<Longrightarrow>
   fs = filter (\<lambda>p. sublist q (toLowerCase B (name_text p))) ps"
  by (induction ps arbitrary: fs) (auto split: sum.splits dest: name_matches_eq)

lemma map_node_length: "map_node B es = Inr ns \<Longrightarrow> length ns = length es"
  by (induction es arbitrary: ns) (auto split: sum.splits)

lemma accounts_body_count:
  "accounts_body B data = Inr body \<Longrightarrow>
   \<exists>xs. read_prop body (str ''accounts'') = JArr xs
      \<and> read_prop body (str ''count'') = JNum (Fin (of_nat (length xs)))"
  by (auto simp: accounts_body_def split: sum.splits jsval.splits dest: map_node_length)

lemma products_body_count:
  "products_body B req data = Inr body \<Longrightarrow>
   \<exists>xs. read_prop body (str ''products'') = JArr xs
      \<and> read_prop body (str ''count'') = JNum (Fin (of_nat (length xs)))"
  by (auto simp: products_body_def split: sum.splits jsval.splits)

lemma query_q_string:
  "read_prop (req_query req) (str ''q'') = JStr q \<Longrightarrow> q \<noteq> [] \<Longrightarrow>
   query_q B req = Inr (toLowerCase B q)"
  by (cases "req_query req") (auto simp: query_q_def)

lemma products_body_filtered:
  assumes "products_body B req data = Inr body"
    and "read_prop (req_query req) (str ''q'') = JStr q" "q \<noteq> []"
  shows "read_prop body (str ''products'')
     = JArr (filter (\<lambda>p. sublist (toLowerCase B q) (toLowerCase B (name_text p)))
               (all_products B data))"
  using assms(1)
  unfolding products_body_def query_q_string [OF assms(2,3)] all_products_def
  by (auto split: sum.splits jsval.splits if_splits dest!: filter_products_eq)

lemma same_letter_iff:
  "(if 65 \<le> u \<and> u \<le> 90 then u + 32 else u) = (if 65 \<le> v \<and> v \<le> 90 then v + 32 else v)
   \<longleftrightarrow> same_letter u v"
  by (auto simp: same_letter_def)

lemma map_eq_same_letter:
  "map (\<lambda>u. if 65 \<le> u \<and> u \<le> 90 then u + 32 else u) xs
     = map (\<lambda>u. if 65 \<le> u \<and> u \<le> 90 then u + 32 else u) ys
   \<longleftrightarrow> list_all2 same_letter xs ys"
proof -
  have "map (\<lambda>u. if 65 \<le> u \<and> u \<le> 90 then u + 32 else u) xs
     = map (\<lambda>u. if 65 \<le> u \<and> u \<le> 90 then u + 32 else u) ys
   \<longleftrightarrow> list_all2 (\<lambda>u v. (if 65 \<le> u \<and> u \<le> 90 then u + 32 else u)
                         = (if 65 \<le> v \<and> v \<le> 90 then v + 32 else v)) xs ys"
    by (simp add: list_all2_eq [of "map _ xs"] list_all2_map1 list_all2_map2)
  then show ?thesis
    by (simp only: same_letter_iff)
qed

lemma sublist_map_iff:
  "sublist (map f q) (map f name)
   \<longleftrightarrow> (\<exists>pre mid post. name = pre @ mid @ post \<and> map f mid = map f q)"
proof
  assume "sublist (map f q) (map f name)"
  then obtain ps ss where "map f name = ps @ map f q @ ss"
    by (auto simp: sublist_def)
  then obtain pre r where 1: "name = pre @ r" "map f r = map f q @ ss"
    by (metis map_eq_append_conv)
  then obtain mid post where "r = mid @ post" "map f mid = map f q"
    by (metis map_eq_append_conv)
  with 1 show "\<exists>pre mid post. name = pre @ mid @ post \<and> map f mid = map f q"
    by blast
next
  assume "\<exists>pre mid post. name = pre @ mid @ post \<and> map f mid = map f q"
  then obtain pre mid post where "name = pre @ mid @ post" "map f mid = map f q"
    by blast
  then have "map f name = map f pre @ map f q @ map f post"
    by simp
  then show "sublist (map f q) (map f name)"
    unfolding sublist_def by blast
qed

lemma ascii_lowercase_contains:
  assumes "toLowerCase B q = map (\<lambda>u. if 65 \<le> u \<and> u \<le> 90 then u + 32 else u) q"
    and "toLowerCase B name = map (\<lambda>u. if 65 \<le> u \<and> u \<le> 90 then u + 32 else u) name"
  shows "sublist (toLowerCase B q) (toLowerCase B name) \<longleftrightarrow> contains_ignoring_case name q"
  unfolding assms sublist_map_iff contains_ignoring_case_def map_eq_same_letter ..

lemma list_accounts_success:
  assumes "read_prop (payload (fst (list_accounts B env w req))) (str ''error'') = JUndefined"
  shows "\<exists>data body. accounts_body B data = Inr body \<and> fst (list_accounts B env w req) = json 200 body"
  using assms
  by (auto simp: list_accounts_def error_response_def json_def split: if_splits prod.splits sum.splits)

lemma list_products_success:
  assumes "read_prop (payload (fst (list_products B env w req))) (str ''error'') = JUndefined"
  shows "\<exists>data body.
      fst (waveQuery_plain B env w (ProductsQuery (env_or_empty env (str ''WAVE_BUSINESS_ID''))) [])
        = Inr data
      \<and> products_body B req data = Inr body \<and> fst (list_products B env w req) = json 200 body"
  using assms
  by (auto simp: list_products_def error_response_def json_def split: if_splits prod.splits sum.splits)

lemma list_products_filtered:
  assumes "read_prop (payload (fst (list_products B env w req))) (str ''error'') = JUndefined"
    and "read_prop (req_query req) (str ''q'') = JStr q" "q \<noteq> []"
    and "fst (waveQuery_plain B env w (ProductsQuery (env_or_empty env (str ''WAVE_BUSINESS_ID''))) [])
           = Inr data"
  shows "read_prop (payload (fst (list_products B env w req))) (str ''products'')
     = JArr (filter (\<lambda>p. sublist (toLowerCase B q) (toLowerCase B (name_text p)))
               (all_products B data))"
proof -
  from list_products_success [OF assms(1)] assms(4) obtain body
    where "products_body B req data = Inr body" "fst (list_products B env w req) = json 200 body"
    by auto
  with products_body_filtered [of B req data body q] assms(2,3) show ?thesis
    by (simp add: json_def)
qed

text \<open>
  C9, amended. In every successful answer of the list-accounts and list-products
  handlers (an answer without an \<^verbatim>\<open>error\<close> field), \<^verbatim>\<open>count\<close> is the length of
  the returned list. When the products listing is given a non-empty query string
  \<^verbatim>\<open>q\<close>, the returned list consists of exactly those products returned by the
  service, in their order, whose lowercased name includes the lowercased \<^verbatim>\<open>q\<close> as
  a substring, both lowercased by \<^verbatim>\<open>String.prototype.toLowerCase\<close>. Where the
  runtime lowercases ASCII text unit by unit, the letters A to Z moving up by 32, and
  the query and the names are ASCII, these are exactly the products whose name contains
  \<^verbatim>\<open>q\<close> as a case-insensitive substring.
\<close>

theorem C9_count_and_lowercase_filter:
  "(read_prop (payload (fst (list_accounts B env w req))) (str ''error'') = JUndefined \<longrightarrow>
      (\<exists>xs. read_prop (payload (fst (list_accounts B env w req))) (str ''accounts'') = JArr xs
         \<and> read_prop (payload (fst (list_accounts B env w req))) (str ''count'')
             = JNum (Fin (of_nat (length xs)))))
   \<and> (read_prop (payload (fst (list_products B env w req))) (str ''error'') = JUndefined \<longrightarrow>
      (\<exists>xs. read_prop (payload (fst (list_products B env w req))) (str ''products'') = JArr xs
         \<and> read_prop (payload (fst (list_products B env w req))) (str ''count'')
             = JNum (Fin (of_nat (length xs)))))
   \<and> (read_prop (payload (fst (list_products B env w req))) (str ''error'') = JUndefined
        \<and> read_prop (req_query req) (str ''q'') = JStr q \<and> q \<noteq> []
        \<and> fst (waveQuery_plain B env w
                  (ProductsQuery (env_or_empty env (str ''WAVE_BUSINESS_ID''))) []) = Inr data \<longrightarrow>
      read_prop (payload (fst (list_products B env w req))) (str ''products'')
        = JArr (filter (\<lambda>p. sublist (toLowerCase B q) (toLowerCase B (name_text p)))
                  (all_products B data)))
   \<and> (read_prop (payload (fst (list_products B env w req))) (str ''error'') = JUndefined
        \<and> read_prop (req_query req) (str ''q'') = JStr q \<and> q \<noteq> []
        \<and> fst (waveQuery_plain B env w
                  (ProductsQuery (env_or_empty env (str ''WAVE_BUSINESS_ID''))) []) = Inr data
        \<and> (\<forall>s. ascii s \<longrightarrow>
               toLowerCase B s = map (\<lambda>u. if 65 \<le> u \<and> u \<le> 90 then u + 32 else u) s)
        \<and> ascii q \<and> (\<forall>p\<in>set (all_products B data). ascii (name_text p)) \<longrightarrow>
      read_prop (payload (fst (list_products B env w req))) (str ''products'')
        = JArr (filter (\<lambda>p. contains_ignoring_case (name_text p) q) (all_products B data)))"
proof (intro conjI impI)
  assume "read_prop (payload (fst (list_accounts B env w req))) (str ''error'') = JUndefined"
  from list_accounts_success [OF this] obtain data body
    where "accounts_body B data = Inr body" "fst (list_accounts B env w req) = json 200 body"
    by blast
  with accounts_body_count [of B data body]
  show "\<exists>xs. read_prop (payload (fst (list_accounts B env w req))) (str ''accounts'') = JArr xs
         \<and> read_prop (payload (fst (list_accounts B env w req))) (str ''count'')
             = JNum (Fin (of_nat (length xs)))"
    by (simp add: json_def)
next
  assume "read_prop (payload (fst (list_products B env w req))) (str ''error'') = JUndefined"
  from list_products_success [OF this] obtain data body
    where "products_body B req data = Inr body" "fst (list_products B env w req) = json 200 body"
    by blast
  with products_body_count [of B req data body]
  show "\<exists>xs. read_prop (payload (fst (list_products B env w req))) (str ''products'') = JArr xs
         \<and> read_prop (payload (fst (list_products B env w req))) (str ''count'')
             = JNum (Fin (of_nat (length xs)))"
    by (simp add: json_def)
next
  assume "read_prop (payload (fst (list_products B env w req))) (str ''error'') = JUndefined
        \<and> read_prop (req_query req) (str ''q'') = JStr q \<and> q \<noteq> []
        \<and> fst (waveQuery_plain B env w
                  (ProductsQuery (env_or_empty env (str ''WAVE_BUSINESS_ID''))) []) = Inr data"
  then show "read_prop (payload (fst (list_products B env w req))) (str ''products'')
        = JArr (filter (\<lambda>p. sublist (toLowerCase B q) (toLowerCase B (name_text p)))
                  (all_products B data))"
    by (intro list_products_filtered) simp_all
next
  assume a: "read_prop (payload (fst (list_products B env w req))) (str ''error'') = JUndefined
        \<and> read_prop (req_query req) (str ''q'') = JStr q \<and> q \<noteq> []
        \<and> fst (waveQuery_plain B env w
                  (ProductsQuery (env_or_empty env (str ''WAVE_BUSINESS_ID''))) []) = Inr data
        \<and> (\<forall>s. ascii s \<longrightarrow>
               toLowerCase B s = map (\<lambda>u. if 65 \<le> u \<and> u \<le> 90 then u + 32 else u) s)
        \<and> ascii q \<and> (\<forall>p\<in>set (all_products B data). ascii (name_text p))"
  then have f: "read_prop (payload (fst (list_products B env w req))) (str ''products'')
        = JArr (filter (\<lambda>p. sublist (toLowerCase B q) (toLowerCase B (name_text p)))
                  (all_products B data))"
    by (intro list_products_filtered) simp_all
  have "filter (\<lambda>p. sublist (toLowerCase B q) (toLowerCase B (name_text p))) (all_products B data)
      = filter (\<lambda>p. contains_ignoring_case (name_text p) q) (all_products B data)"
  proof (rule filter_cong [OF refl])
    fix p assume "p \<in> set (all_products B data)"
    with a show "sublist (toLowerCase B q) (toLowerCase B (name_text p))
        \<longleftrightarrow> contains_ignoring_case (name_text p) q"
      by (intro ascii_lowercase_contains) auto
  qed
  with f show "read_prop (payload (fst (list_products B env w req))) (str ''products'')
        = JArr (filter (\<lambda>p. contains_ignoring_case (name_text p) q) (all_products B data))"
    by simp
qed

lemma lower_units_ascii:
  "ascii s \<Longrightarrow> lower_units b s = map (\<lambda>u. if 65 \<le> u \<and> u \<le> 90 then u + 32 else u) s"
  by (induction s arbitrary: b) (auto simp: ascii_def lower_unit_def)

lemma example_runtime_ascii:
  "\<forall>s. ascii s \<longrightarrow>
     toLowerCase example_runtime s = map (\<lambda>u. if 65 \<le> u \<and> u \<le> 90 then u + 32 else u) s"
  by (simp add: example_runtime_def lower_units_ascii)

lemma products_answer:
  "fst (waveQuery_plain example_runtime configured_env (products_service ps)
          (ProductsQuery (env_or_empty configured_env (str ''WAVE_BUSINESS_ID''))) [])
     = Inr (products_data ps)"
  by (simp add: waveQuery_plain_def wave_response_plain_def configured_env_def env_or_empty_def
      products_service_def)

lemma map_node_nodes: "map_node B (map (\<lambda>p. JObj [(str ''node'', p)]) ps) = Inr ps"
  by (induction ps) simp_all

lemma all_products_data: "all_products B (products_data ps) = ps"
  by (simp add: all_products_def products_data_def edges_of_def js_or_def map_node_nodes)

lemma catalog_run:
  "fst (list_products example_runtime configured_env (products_service product_list)
          (products_query (str ''PACK'')))
     = json 200 (JObj [(str ''business'',
                         JObj [(str ''id'', JStr (str ''biz'')), (str ''name'', JStr (str ''Studio''))]),
         (str ''count'', JNum (Fin 2)),
         (str ''products'',
            JArr [JObj [(str ''id'', JStr (str ''p1'')),
                        (str ''name'', JStr (str ''Core System Package''))],
                  JObj [(str ''id'', JStr (str ''p2'')),
                        (str ''name'', JStr (str ''Growth Accelerator Package''))]])])"
  by code_simp

lemma catalog_ascii:
  "ascii (str ''PACK'')" "\<forall>p\<in>set product_list. ascii (name_text p)"
  by (simp_all add: ascii_def product_list_def name_text_def str_def)

text \<open>
  The query \<^verbatim>\<open>PACK\<close> on four products, one of them without a name and one whose
  name does not contain the query: the two others are returned, and the count is 2.
\<close>

theorem C9_count_and_lowercase_filter_witness:
  "read_prop (payload (fst (list_products example_runtime configured_env
       (products_service product_list) (products_query (str ''PACK''))))) (str ''count'')
     = JNum (Fin 2)
   \<and> read_prop (payload (fst (list_products example_runtime configured_env
       (products_service product_list) (products_query (str ''PACK''))))) (str ''products'')
     = JArr (filter (\<lambda>p. contains_ignoring_case (name_text p) (str ''PACK'')) product_list)
   \<and> filter (\<lambda>p. contains_ignoring_case (name_text p) (str ''PACK'')) product_list
     = [JObj [(str ''id'', JStr (str ''p1'')), (str ''name'', JStr (str ''Core System Package''))],
        JObj [(str ''id'', JStr (str ''p2'')),
              (str ''name'', JStr (str ''Growth Accelerator Package''))]]"
proof -
  have e: "read_prop (payload (fst (list_products example_runtime configured_env
       (products_service product_list) (products_query (str ''PACK''))))) (str ''error'')
     = JUndefined"
    by (simp add: catalog_run json_def)
  have q: "read_prop (req_query (products_query (str ''PACK''))) (str ''q'') = JStr (str ''PACK'')"
    "str ''PACK'' \<noteq> []"
    by (simp_all add: products_query_def)
  have h: "read_prop (payload (fst (list_products example_runtime configured_env
          (products_service product_list) (products_query (str ''PACK''))))) (str ''error'')
        = JUndefined
      \<and> read_prop (req_query (products_query (str ''PACK''))) (str ''q'') = JStr (str ''PACK'')
      \<and> str ''PACK'' \<noteq> []
      \<and> fst (waveQuery_plain example_runtime configured_env (products_service product_list)
                (ProductsQuery (env_or_empty configured_env (str ''WAVE_BUSINESS_ID''))) [])
          = Inr (products_data product_list)
      \<and> (\<forall>s. ascii s \<longrightarrow>
             toLowerCase example_runtime s
               = map (\<lambda>u. if 65 \<le> u \<and> u \<le> 90 then u + 32 else u) s)
      \<and> ascii (str ''PACK'')
      \<and> (\<forall>p\<in>set (all_products example_runtime (products_data product_list)).
            ascii (name_text p))"
    using e q products_answer example_runtime_ascii catalog_ascii
    by (simp only: all_products_data simp_thms)
  note t = C9_count_and_lowercase_filter [of example_runtime configured_env
      "products_service product_list" "products_query (str ''PACK'')" "str ''PACK''"
      "products_data product_list"]
  from t [THEN conjunct2, THEN conjunct2, THEN conjunct2, THEN mp, OF h]
  have 1: "read_prop (payload (fst (list_products example_runtime configured_env
       (products_service product_list) (products_query (str ''PACK''))))) (str ''products'')
     = JArr (filter (\<lambda>p. contains_ignoring_case (name_text p) (str ''PACK'')) product_list)"
    by (simp only: all_products_data)
  have 2: "read_prop (payload (fst (list_products example_runtime configured_env
       (products_service product_list) (products_query (str ''PACK''))))) (str ''products'')
     = JArr [JObj [(str ''id'', JStr (str ''p1'')), (str ''name'', JStr (str ''Core System Package''))],
        JObj [(str ''id'', JStr (str ''p2'')),
              (str ''name'', JStr (str ''Growth Accelerator Package''))]]"
    by (simp add: catalog_run json_def)
  have 3: "read_prop (payload (fst (list_products example_runtime configured_env
       (products_service product_list) (products_query (str ''PACK''))))) (str ''count'')
     = JNum (Fin 2)"
    by (simp add: catalog_run json_def)
  from 1 2 have "filter (\<lambda>p. contains_ignoring_case (name_text p) (str ''PACK'')) product_list
     = [JObj [(str ''id'', JStr (str ''p1'')), (str ''name'', JStr (str ''Core System Package''))],
        JObj [(str ''id'', JStr (str ''p2'')),
              (str ''name'', JStr (str ''Growth Accelerator Package''))]]"
    by (simp only: jsval.inject)
  with 1 3 show ?thesis
    by (intro conjI)
qed

lemma greek_run:
  "fst (list_products example_runtime configured_env (products_service greek_products)
          (products_query [931]))
     = json 200 (JObj [(str ''business'',
                         JObj [(str ''id'', JStr (str ''biz'')), (str ''name'', JStr (str ''Studio''))]),
         (str ''count'', JNum (Fin 0)),
         (str ''products'', JArr [])])"
  by code_simp

lemma greek_name_contains: "contains_ignoring_case [927, 916, 927, 931] [931]"
proof -
  have "[927, 916, 927, 931] = [927, 916, 927] @ [931] @ ([] :: nat list)"
    by simp
  moreover have "list_all2 same_letter [931] [931]"
    by (simp add: same_letter_def)
  ultimately show ?thesis
    unfolding contains_ignoring_case_def by blast
qed

text \<open>
  C9 as stated fails: the service has one product, whose name is the four Greek capitals
  omicron, delta, omicron, sigma, and the query is the capital sigma. The name contains
  the query, as it stands and so whatever the case; but lowercasing turns the sigma at
  the end of the name into the final sigma and the sigma of the query into the plain
  one, and the product is not returned.
\<close>

theorem C9_final_sigma_counterexample:
  "all_products example_runtime (products_data greek_products) = greek_products
   \<and> map name_text greek_products = [[927, 916, 927, 931]]
   \<and> sublist [931] ([927, 916, 927, 931] :: jsstring)
   \<and> contains_ignoring_case [927, 916, 927, 931] [931]
   \<and> toLowerCase example_runtime [927, 916, 927, 931] = [959, 948, 959, 962]
   \<and> toLowerCase example_runtime [931] = [963]
   \<and> read_prop (payload (fst (list_products example_runtime configured_env
        (products_service greek_products) (products_query [931])))) (str ''products'') = JArr []
   \<and> read_prop (payload (fst (list_products example_runtime configured_env
        (products_service greek_products) (products_query [931])))) (str ''count'')
      = JNum (Fin 0)"
proof -
  have "sublist [931] ([927, 916, 927] @ [931] @ ([] :: nat list))"
    by (rule sublist_appendI)
  then have s: "sublist [931] [927, 916, 927, 931 :: nat]"
    by simp
  have n: "map name_text greek_products = [[927, 916, 927, 931]]"
    by (simp add: greek_products_def name_text_def)
  have l: "toLowerCase example_runtime [927, 916, 927, 931] = [959, 948, 959, 962]"
    "toLowerCase example_runtime [931] = [963]"
    by (simp_all add: example_runtime_def lower_unit_def cased_letter_def)
  from s n l show ?thesis
    by (simp add: all_products_data greek_name_contains greek_run json_def)
qed

end
